theory Spec2Isabelle
  imports Main "HOL-Library.Char_ord" "HOL-Library.List_Lexorder" "HOL-Library.Multiset"
begin

section \<open>Text primitives\<close>

text \<open>
  Cell text is modelled as \<open>string\<close> (a list of 8-bit characters) and is taken to be
  ASCII: the whitespace class is the ASCII part of what JavaScript's \<open>trim\<close> and
  \<open>\s\<close> accept, and case conversion acts on the letters a-z / A-Z only. Every
  spreadsheet cell is modelled by its text; an empty cell is the empty string
  (the sheets are read with \<open>defval: ""\<close>).
\<close>

definition isWhitespace :: "char \<Rightarrow> bool" where
  "isWhitespace c \<longleftrightarrow>
     c = CHR '' '' \<or> c = CHR 0x09 \<or> c = CHR 0x0A \<or> c = CHR 0x0B \<or> c = CHR 0x0C \<or> c = CHR 0x0D"

definition isDigit :: "char \<Rightarrow> bool" where
  "isDigit c \<longleftrightarrow> c \<in> set ''0123456789''"

definition digitVal :: "char \<Rightarrow> nat" where
  "digitVal c = (case map_of (zip ''0123456789'' [0, 1, 2, 3, 4, 5, 6, 7, 8, 9]) c of
                   Some d \<Rightarrow> d | None \<Rightarrow> 0)"

text \<open>\<open>parseInt(ds, 10)\<close> on a non-empty run of decimal digits.\<close>

definition parseDigits :: "string \<Rightarrow> nat" where
  "parseDigits ds = foldl (\<lambda>n c. 10 * n + digitVal c) 0 ds"

text \<open>\<open>String.prototype.trim\<close>.\<close>

definition trim :: "string \<Rightarrow> string" where
  "trim s = rev (dropWhile isWhitespace (rev (dropWhile isWhitespace s)))"

definition upperChar :: "char \<Rightarrow> char" where
  "upperChar c = (case map_of (zip ''abcdefghijklmnopqrstuvwxyz'' ''ABCDEFGHIJKLMNOPQRSTUVWXYZ'') c of
                    Some u \<Rightarrow> u | None \<Rightarrow> c)"

definition lowerChar :: "char \<Rightarrow> char" where
  "lowerChar c = (case map_of (zip ''ABCDEFGHIJKLMNOPQRSTUVWXYZ'' ''abcdefghijklmnopqrstuvwxyz'') c of
                    Some l \<Rightarrow> l | None \<Rightarrow> c)"

definition toUpperCase :: "string \<Rightarrow> string" where
  "toUpperCase s = map upperChar s"

definition toLowerCase :: "string \<Rightarrow> string" where
  "toLowerCase s = map lowerChar s"

text \<open>\<open>s.startsWith(t)\<close> and \<open>s.includes(t)\<close>: \<open>t\<close> occurs in \<open>s\<close> at
  position 0, respectively at some position.\<close>

fun startsWith :: "string \<Rightarrow> string \<Rightarrow> bool" where
  "startsWith s [] = True"
| "startsWith [] (c # t) = False"
| "startsWith (d # s) (c # t) = (d = c \<and> startsWith s t)"

fun includesStr :: "string \<Rightarrow> string \<Rightarrow> bool" where
  "includesStr [] t = (t = [])"
| "includesStr (c # s) t = (startsWith (c # s) t \<or> includesStr s t)"

text \<open>\<open>s.split(sep)\<close> for a one-character separator: the pieces between the
  separators, empty pieces included; the result is never empty.\<close>

fun splitChar :: "char \<Rightarrow> string \<Rightarrow> string list" where
  "splitChar sep [] = [[]]"
| "splitChar sep (c # s) =
     (case splitChar sep s of
        [] \<Rightarrow> (if c = sep then [[], []] else [[c]])
      | p # ps \<Rightarrow> (if c = sep then [] # p # ps else (c # p) # ps))"

text \<open>\<open>s.split(/\s+/)\<close>: the pieces between maximal whitespace runs. A leading or a
  trailing run yields an empty first or last piece, and the empty string yields one empty
  piece. The flag of \<open>splitRun\<close> says that the character before was whitespace.\<close>

fun splitRun :: "bool \<Rightarrow> string \<Rightarrow> string list" where
  "splitRun inRun [] = [[]]"
| "splitRun inRun (c # s) =
     (if isWhitespace c
      then (if inRun then splitRun True s else [] # splitRun True s)
      else (case splitRun False s of
              [] \<Rightarrow> [[c]]
            | p # ps \<Rightarrow> (c # p) # ps))"

definition splitWs :: "string \<Rightarrow> string list" where
  "splitWs s = splitRun False s"

section \<open>Structural verifier (first and second level)\<close>

text \<open>A row of the user-profile sheet; the columns are \<open>user\<close>, \<open>sub_code\<close>,
  \<open>class\<close>, \<open>grouping\<close> and \<open>grouping_real\<close>.\<close>

record profile_row =
  up_user :: string
  up_sub_code :: string
  up_class :: string
  up_grouping :: string
  up_grouping_real :: string

definition firstLevelSubCodeMapping :: "string \<Rightarrow> string option" where
  "firstLevelSubCodeMapping = map_of
     [(''DENG1'', ''ENN1''), (''DMA11'', ''MATH''), (''REGS'', ''DREST''),
      (''DPED11'', ''PHED''), (''DCLI21'', ''COLI''), (''CHN1'', ''DCHIN1''),
      (''DPHY11'', ''PHY1''), (''DVIA11'', ''VIAR''), (''DMUSI1'', ''MUSI''),
      (''DGEO11'', ''GEOG'')]"

definition secondLevelSubCodeMapping :: "string \<Rightarrow> string option" where
  "secondLevelSubCodeMapping = map_of
     [(''DMA11'', ''DMATH1''), (''DPED11'', ''DPHEDS''), (''DPED3'', ''DPED31''),
      (''DPED2'', ''DPED21''), (''DCHS3A'', ''DC3A1''), (''DCHS3B'', ''DC3B1''),
      (''DCHIS2'', ''DCI21''), (''DCHIN'', ''DCHIN1''), (''DVIAR2'', ''DVIA21''),
      (''DVIAR3'', ''DVIA31'')]"

text \<open>The leading digit run of the trimmed class cell, read as a decimal number;
  \<open>None\<close> is the source's \<open>null\<close>.\<close>

definition extractClassNumber :: "string \<Rightarrow> nat option" where
  "extractClassNumber classStr =
     (let ds = takeWhile isDigit (trim classStr)
      in if ds = [] then None else Some (parseDigits ds))"

definition startsWithD :: "string \<Rightarrow> bool" where
  "startsWithD subCode \<longleftrightarrow> startsWith subCode ''D'' \<or> startsWith subCode ''d''"

text \<open>The override attempted on an invalid row: the row's \<open>sub_code\<close> is replaced when
  the uppercased, trimmed code is a key of the first-level table. The keys looked up are
  uppercased, so no inherited property name of a JavaScript object can be hit.\<close>

definition firstLevelReplace :: "profile_row \<Rightarrow> string \<Rightarrow> profile_row" where
  "firstLevelReplace row subCode =
     (case firstLevelSubCodeMapping (toUpperCase subCode) of
        Some replacement \<Rightarrow> row\<lparr>up_sub_code := replacement\<rparr>
      | None \<Rightarrow> row)"

text \<open>\<open>firstLevelVerification\<close> returns whether the row is invalid, and mutates the
  row; the model returns the flag and the row after the call.\<close>

definition firstLevelVerification :: "profile_row \<Rightarrow> bool \<times> profile_row" where
  "firstLevelVerification row =
     (let subCode = trim (up_sub_code row) in
      case extractClassNumber (up_class row) of
        None \<Rightarrow> (True, firstLevelReplace row subCode)
      | Some classNumber \<Rightarrow>
          (let isValid = (if classNumber \<le> 3 then \<not> startsWithD subCode
                          else startsWithD subCode)
           in if \<not> isValid then (True, firstLevelReplace row subCode)
              else (False, row)))"

definition secondLevelVerification :: "profile_row \<Rightarrow> profile_row" where
  "secondLevelVerification row =
     (let subCode = trim (up_sub_code row) in
      case secondLevelSubCodeMapping (toUpperCase subCode) of
        Some replacement \<Rightarrow> row\<lparr>up_sub_code := replacement\<rparr>
      | None \<Rightarrow> row)"

text \<open>The first \<open>data.forEach\<close>: every row is verified in place and the invalid rows
  are counted. The state is the counter and the rows already visited.\<close>

fun firstLevelPass :: "profile_row list \<Rightarrow> nat \<times> profile_row list \<Rightarrow> nat \<times> profile_row list" where
  "firstLevelPass [] st = st"
| "firstLevelPass (row # rows) (firstLevelInvalidCount, acc) =
     (case firstLevelVerification row of
        (invalid, row') \<Rightarrow>
          firstLevelPass rows
            ((if invalid then firstLevelInvalidCount + 1 else firstLevelInvalidCount),
             acc @ [row']))"

text \<open>The second \<open>data.forEach\<close>, over the rows the first pass left.\<close>

fun secondLevelPass :: "profile_row list \<Rightarrow> profile_row list \<Rightarrow> profile_row list" where
  "secondLevelPass [] acc = acc"
| "secondLevelPass (row # rows) acc = secondLevelPass rows (acc @ [secondLevelVerification row])"

text \<open>The whole verification script: the invalid count it prints and the rows it
  writes.\<close>

definition verifyUserProfiles :: "profile_row list \<Rightarrow> nat \<times> profile_row list" where
  "verifyUserProfiles data =
     (case firstLevelPass data (0, []) of
        (firstLevelInvalidCount, data1) \<Rightarrow> (firstLevelInvalidCount, secondLevelPass data1 []))"

section \<open>Code mapping resolver (Part 4 of the workload script)\<close>

text \<open>The reference sheet \<open>Table_Sub_Subject\<close> as the script reads it cell by cell:
  a list of rows, row 0 being the header, each row a list of cell texts. A cell that is
  absent reads as the empty string, as in \<open>tableSheet[ref] ? tableSheet[ref].v : ''\<close>.\<close>

type_synonym sheet = "string list list"

definition cellOf :: "string list \<Rightarrow> nat \<Rightarrow> string" where
  "cellOf row c = (if c < length row then row ! c else [])"

text \<open>Step 4.1: the index of the first header cell that reads \<open>sub_code\<close> after
  trimming and lowercasing; \<open>None\<close> is the source's \<open>-1\<close>.\<close>

fun findSubCodeCol :: "string list \<Rightarrow> nat \<Rightarrow> nat option" where
  "findSubCodeCol [] c = None"
| "findSubCodeCol (val # vals) c =
     (if toLowerCase (trim val) = ''sub_code'' then Some c else findSubCodeCol vals (c + 1))"

definition subCodeColIndex :: "sheet \<Rightarrow> nat option" where
  "subCodeColIndex tableSheet =
     (case tableSheet of [] \<Rightarrow> None | headerRow # _ \<Rightarrow> findSubCodeCol headerRow 0)"

text \<open>The DSE override table. The lookup is modelled on the table's own keys; a
  candidate that names a property every JavaScript object inherits (such as
  \<open>constructor\<close>) is outside the model.\<close>

definition dseMapping :: "string \<Rightarrow> string option" where
  "dseMapping = map_of
     [(''DSE-PE1'', ''DPED1''), (''DSE-PE2'', ''DPED2''), (''DSE-PE3'', ''DPED3''),
      (''DSE-VA1'', ''DVIAR1''), (''DSE-VA2'', ''DVIAR2''), (''DSE-VA3'', ''DVIAR3'')]"

text \<open>\<open>groupingVal.split(' ').filter((p) => p.trim() !== '')\<close>.\<close>

definition groupingParts :: "string \<Rightarrow> string list" where
  "groupingParts groupingVal = filter (\<lambda>p. trim p \<noteq> []) (splitChar (CHR '' '') groupingVal)"

text \<open>\<open>s.replace(/^\d+/, '')\<close>.\<close>

definition stripLeadingDigits :: "string \<Rightarrow> string" where
  "stripLeadingDigits s = dropWhile isDigit s"

text \<open>\<open>s.replace(/^\((.*)\)$/, '$1')\<close>: the dot of the pattern matches no line
  terminator, so a text with a line feed or carriage return inside is left alone.\<close>

definition stripParens :: "string \<Rightarrow> string" where
  "stripParens s =
     (if 2 \<le> length s \<and> hd s = CHR ''('' \<and> last s = CHR '')''
         \<and> list_all (\<lambda>c. c \<noteq> CHR 0x0A \<and> c \<noteq> CHR 0x0D) (butlast (tl s))
      then butlast (tl s) else s)"

definition renameIf :: "string \<Rightarrow> string \<Rightarrow> string \<Rightarrow> string" where
  "renameIf old new s = (if s = old then new else s)"

text \<open>The five renamings, applied one after the other in the source's order.\<close>

definition renameCandidate :: "string \<Rightarrow> string" where
  "renameCandidate s =
     renameIf ''PTH'' ''PUTO'' (renameIf ''VA'' ''VIAR'' (renameIf ''L&S'' ''LISO''
       (renameIf ''RSE'' ''REGS'' (renameIf ''MATHS'' ''MATH'' s))))"

text \<open>The derived candidate \<open>newSubjectCode\<close> of a grouping text.\<close>

definition newSubjectCode :: "string \<Rightarrow> string" where
  "newSubjectCode groupingVal =
     (let parts = groupingParts groupingVal;
          derived = (if length parts = 3 then parts ! 1
                     else if length parts = 2 then trim (stripLeadingDigits (parts ! 0))
                     else [])
      in renameCandidate (stripParens derived))"

text \<open>The generic scan of the reference sheet's rows 1, 2, ...: the first row whose
  column B equals the candidate or contains it wins, and the result is that row's cell
  in the \<open>sub_code\<close> column (empty when the sheet has no such column). The result is the
  pair \<open>(foundMatch, matchedSubCodeVal)\<close>.\<close>

definition subCodeCell :: "nat option \<Rightarrow> string list \<Rightarrow> string" where
  "subCodeCell col row = (case col of None \<Rightarrow> [] | Some c \<Rightarrow> cellOf row c)"

fun scanTable :: "nat option \<Rightarrow> string list list \<Rightarrow> string \<Rightarrow> bool \<times> string" where
  "scanTable col [] cand = (False, [])"
| "scanTable col (rowT # rest) cand =
     (let bVal = cellOf rowT 1 in
      if bVal = cand then (True, subCodeCell col rowT)
      else if includesStr bVal cand then (True, subCodeCell col rowT)
      else scanTable col rest cand)"

definition genericScan :: "sheet \<Rightarrow> string \<Rightarrow> bool \<times> string" where
  "genericScan tableSheet cand = scanTable (subCodeColIndex tableSheet) (drop 1 tableSheet) cand"

text \<open>Step 4.2 for one grouping text: \<open>(foundMatch, matchedSubCodeVal)\<close>.\<close>

definition resolveSubCode :: "sheet \<Rightarrow> string \<Rightarrow> bool \<times> string" where
  "resolveSubCode tableSheet groupingVal =
     (let cand = newSubjectCode groupingVal in
      case (if includesStr (toUpperCase groupingVal) ''DSE'' then dseMapping cand else None) of
        Some mapped \<Rightarrow> (True, mapped)
      | None \<Rightarrow>
         (if cand = ''M2'' then (True, ''DMA21'')
          else if cand \<noteq> [] then
            (if includesStr cand ''CHIST1'' then (True, ''DCI11'')
             else if includesStr cand ''CHIST2'' then (True, ''DCI21'')
             else if includesStr cand ''CHIST3A'' then (True, ''DC3A1'')
             else if includesStr cand ''CHIST3B'' then (True, ''DC3B1'')
             else if includesStr cand ''CHIST3'' then (True, ''DCI31'')
             else if cand = ''CHI'' then (True, ''CHN1'')
             else if cand = ''IS'' then (True, ''INSC'')
             else genericScan tableSheet cand)
          else (False, [])))"

text \<open>Step 4.3: the matched value is stored in the row's \<open>sub_code\<close>, empty when
  nothing matched.\<close>

definition resolveRow :: "sheet \<Rightarrow> profile_row \<Rightarrow> profile_row" where
  "resolveRow tableSheet row = row\<lparr>up_sub_code := snd (resolveSubCode tableSheet (up_grouping row))\<rparr>"

text \<open>Step 4.4 sorts the rows with \<open>userA.localeCompare(userB)\<close> on the uppercased
  \<open>user\<close> texts. The collation is the host's; it is a parameter \<open>le\<close> of the model,
  \<open>le a b\<close> standing for \<open>a.localeCompare(b) \<le> 0\<close>. \<open>Array.prototype.sort\<close> is
  stable, which for a consistent comparison is what insertion from the right gives.\<close>

fun insertBy :: "('a \<Rightarrow> 'a \<Rightarrow> bool) \<Rightarrow> 'a \<Rightarrow> 'a list \<Rightarrow> 'a list" where
  "insertBy le x [] = [x]"
| "insertBy le x (y # ys) = (if le x y then x # y # ys else y # insertBy le x ys)"

definition sortBy :: "('a \<Rightarrow> 'a \<Rightarrow> bool) \<Rightarrow> 'a list \<Rightarrow> 'a list" where
  "sortBy le xs = foldr (insertBy le) xs []"

definition userLe :: "(string \<Rightarrow> string \<Rightarrow> bool) \<Rightarrow> profile_row \<Rightarrow> profile_row \<Rightarrow> bool" where
  "userLe le a b = le (toUpperCase (up_user a)) (toUpperCase (up_user b))"

text \<open>Part 4 as a whole: what is written back to the user-profile sheet.\<close>

definition part4 :: "(string \<Rightarrow> string \<Rightarrow> bool) \<Rightarrow> sheet \<Rightarrow> profile_row list \<Rightarrow> profile_row list" where
  "part4 le tableSheet userProfileData = sortBy (userLe le) (map (resolveRow tableSheet) userProfileData)"

section \<open>Frequency index and substring matcher (student-profile script)\<close>

text \<open>A row of a sheet read by \<open>sheet_to_json\<close>: its columns in order, each with the
  cell's text.\<close>

type_synonym json_row = "(string \<times> string) list"

record freq_entry =
  fe_count :: nat
  fe_subCodes :: "string list"

text \<open>\<open>frequencyMap\<close> is an object used as a dictionary. The model keeps its own keys
  in creation order, each with its entry. A cell text that names a property every object
  inherits is outside the model.\<close>

type_synonym frequency_map = "(string \<times> freq_entry) list"

definition removeHyphens :: "string \<Rightarrow> string" where
  "removeHyphens s = (if CHR ''-'' \<in> set s then filter (\<lambda>c. c \<noteq> CHR ''-'') s else s)"

text \<open>The text a raw cell value is indexed under: \<open>None\<close> when the trimmed value is
  empty and the cell is skipped.\<close>

definition cellKey :: "string \<Rightarrow> string option" where
  "cellKey raw = (let rawValue = trim raw in
                  if rawValue = [] then None else Some (removeHyphens rawValue))"

text \<open>The row's trimmed \<open>sub_code\<close>, when the row has that column and the value is
  not empty.\<close>

definition rowSubCode :: "json_row \<Rightarrow> string option" where
  "rowSubCode row =
     (case map_of row ''sub_code'' of
        None \<Rightarrow> None
      | Some v \<Rightarrow> (if trim v = [] then None else Some (trim v)))"

fun bumpEntry :: "string \<Rightarrow> string option \<Rightarrow> frequency_map \<Rightarrow> frequency_map" where
  "bumpEntry k sc [] =
     [(k, \<lparr>fe_count = 1, fe_subCodes = (case sc of None \<Rightarrow> [] | Some v \<Rightarrow> [v])\<rparr>)]"
| "bumpEntry k sc ((k', e) # rest) =
     (if k' = k
      then (k', \<lparr>fe_count = fe_count e + 1,
                 fe_subCodes = (case sc of None \<Rightarrow> fe_subCodes e | Some v \<Rightarrow> fe_subCodes e @ [v])\<rparr>) # rest
      else (k', e) # bumpEntry k sc rest)"

definition indexCell :: "json_row \<Rightarrow> frequency_map \<Rightarrow> string \<Rightarrow> frequency_map" where
  "indexCell row fm raw = (case cellKey raw of None \<Rightarrow> fm | Some k \<Rightarrow> bumpEntry k (rowSubCode row) fm)"

definition indexRow :: "frequency_map \<Rightarrow> json_row \<Rightarrow> frequency_map" where
  "indexRow fm row = foldl (indexCell row) fm (map snd row)"

definition buildFrequencyMap :: "json_row list \<Rightarrow> frequency_map" where
  "buildFrequencyMap userJsonData = foldl indexRow [] userJsonData"

text \<open>\<open>for (const key in frequencyMap)\<close> visits the keys that are array indices (a
  canonical decimal numeral below \<open>2^32 - 1 = 4294967295\<close>) first, in ascending numeric
  order, and then the other keys in creation order. A canonical numeral is below that
  bound when it has fewer than ten digits, or has ten and comes before the bound's
  numeral in the lexicographic order.\<close>

definition isArrayIndex :: "string \<Rightarrow> bool" where
  "isArrayIndex k \<longleftrightarrow>
     k \<noteq> [] \<and> list_all isDigit k \<and> (k = ''0'' \<or> hd k \<noteq> CHR ''0'')
     \<and> (length k < 10 \<or> (length k = 10 \<and> k < ''4294967295''))"

definition forInOrder :: "frequency_map \<Rightarrow> frequency_map" where
  "forInOrder fm =
     sort_key (\<lambda>(k, e). parseDigits k) (filter (\<lambda>(k, e). isArrayIndex k) fm)
     @ filter (\<lambda>(k, e). \<not> isArrayIndex k) fm"

text \<open>The decimal numeral of a count, as template strings print it.\<close>

definition digitChar :: "nat \<Rightarrow> char" where
  "digitChar d = ''0123456789'' ! d"

fun showNat :: "nat \<Rightarrow> string" where
  "showNat n = (if n < 10 then [digitChar n] else showNat (n div 10) @ [digitChar (n mod 10)])"

declare showNat.simps [simp del]

record match_result =
  mr_count :: nat
  mr_matches :: "string list"
  mr_subCodes :: "string list"

text \<open>\<open>Set.prototype.add\<close> on a set kept in insertion order.\<close>

definition setAdd :: "string list \<Rightarrow> string \<Rightarrow> string list" where
  "setAdd collected sc = (if sc \<in> set collected then collected else collected @ [sc])"

definition matchLabel :: "string \<Rightarrow> freq_entry \<Rightarrow> string" where
  "matchLabel key e = key @ '' ('' @ showNat (fe_count e) @ '')''"

text \<open>The loop of \<open>findMatches\<close> over the keys in visiting order, with the three
  accumulators \<open>count\<close>, \<open>matches\<close> and \<open>collectedSubCodes\<close>.\<close>

fun findLoop :: "string \<Rightarrow> frequency_map \<Rightarrow> match_result \<Rightarrow> match_result" where
  "findLoop normalizedSubstring [] acc = acc"
| "findLoop normalizedSubstring ((key, e) # rest) acc =
     (if includesStr key normalizedSubstring
      then findLoop normalizedSubstring rest
             \<lparr>mr_count = mr_count acc + fe_count e,
              mr_matches = mr_matches acc @ [matchLabel key e],
              mr_subCodes = foldl setAdd (mr_subCodes acc) (fe_subCodes e)\<rparr>
      else findLoop normalizedSubstring rest acc)"

definition findMatches :: "frequency_map \<Rightarrow> string \<Rightarrow> match_result" where
  "findMatches frequencyMap substring =
     findLoop (removeHyphens substring) (forInOrder frequencyMap)
       \<lparr>mr_count = 0, mr_matches = [], mr_subCodes = []\<rparr>"

section \<open>Record builder of the student-profile script\<close>

text \<open>A row of the reference table as \<open>sheet_to_json\<close> gives it.\<close>

record table_row =
  t_sub_code :: string
  t_subject_code :: string

text \<open>The nine-column output record. \<open>subject_code\<close> is \<open>None\<close> where the source
  stores \<open>null\<close>.\<close>

record output_record =
  tsss_id :: string
  a_year :: string
  terms :: string
  sub_code :: string
  subject_code :: "string option"
  taking :: string
  self_taking :: string
  grouping :: string
  grouping_real :: string

text \<open>\<open>subSubjectMapping\<close>: a table row enters the mapping when both of its trimmed
  codes are non-empty; a later row with the same \<open>sub_code\<close> replaces an earlier one.
  Lookups are modelled on the mapping's own keys.\<close>

definition addSubSubject :: "(string \<Rightarrow> string option) \<Rightarrow> table_row \<Rightarrow> (string \<Rightarrow> string option)" where
  "addSubSubject m row =
     (let subCode = trim (t_sub_code row); subjectCode = trim (t_subject_code row)
      in if subCode \<noteq> [] \<and> subjectCode \<noteq> [] then m(subCode \<mapsto> subjectCode) else m)"

definition subSubjectMapping :: "table_row list \<Rightarrow> (string \<Rightarrow> string option)" where
  "subSubjectMapping tableData = foldl addSubSubject Map.empty tableData"

definition convertSubCode :: "string \<Rightarrow> string" where
  "convertSubCode subCode =
     (if subCode = ''DCHIS1'' then ''DCI11''
      else if subCode = ''DCHIS3'' then ''DCI31''
      else subCode)"

text \<open>\<open>subSubjectMapping[sub_code] || ""\<close>.\<close>

definition lookupSubjectCode :: "(string \<Rightarrow> string option) \<Rightarrow> string \<Rightarrow> string" where
  "lookupSubjectCode mapping subCode = (case mapping subCode of None \<Rightarrow> [] | Some v \<Rightarrow> v)"

text \<open>\<open>processMatchForRecord\<close>; \<open>None\<close> is the source's \<open>null\<close>. The grouping is
  the first match label up to its first opening parenthesis, trimmed.\<close>

definition processMatchForRecord ::
  "(string \<Rightarrow> string option) \<Rightarrow> string \<Rightarrow> match_result \<Rightarrow> output_record option" where
  "processMatchForRecord mapping tsssid matchObj =
     (if 0 < mr_count matchObj \<and> mr_subCodes matchObj \<noteq> [] \<and> mr_matches matchObj \<noteq> []
      then
        (let groupingText = trim (takeWhile (\<lambda>c. c \<noteq> CHR ''('') (hd (mr_matches matchObj)));
             originalSub = trim (hd (mr_subCodes matchObj));
             subCode = convertSubCode originalSub;
             subjectCode = lookupSubjectCode mapping subCode
         in if subCode \<noteq> [] \<and> subjectCode \<noteq> []
            then Some \<lparr>tsss_id = tsssid, a_year = ''2025/2026'', terms = ''Term 1'',
                       sub_code = subCode, subject_code = Some subjectCode,
                       taking = ''TRUE'', self_taking = ''FALSE'',
                       grouping = groupingText, grouping_real = groupingText\<rparr>
            else None)
      else None)"

text \<open>A row of the class list. The columns are \<open>TSSSID\<close>, \<open>Form\<close>, \<open>Class\<close>,
  \<open>Class no\<close>, the elective columns \<open>X1\<close>, \<open>X2\<close>, \<open>X3\<close>, the teacher columns
  \<open>CHI\<close>, \<open>MATHS\<close>, \<open>RSE\<close>, \<open>ENG\<close>, and \<open>M1&2\<close>.\<close>

record class_row =
  cl_TSSSID :: string
  cl_Form :: string
  cl_Class :: string
  cl_Class_no :: string
  cl_X1 :: string
  cl_X2 :: string
  cl_X3 :: string
  cl_CHI :: string
  cl_MATHS :: string
  cl_RSE :: string
  cl_ENG :: string
  cl_M1_2 :: string

text \<open>The records one class-list row appends: none when \<open>X1\<close>, \<open>X2\<close> and \<open>X3\<close>
  are all empty, else the records of the three combined texts that yield one, in the
  order X1, X2, X3.\<close>

definition recordsOfClassRow ::
  "frequency_map \<Rightarrow> (string \<Rightarrow> string option) \<Rightarrow> class_row \<Rightarrow> output_record list" where
  "recordsOfClassRow frequencyMap mapping row =
     (if cl_X1 row = [] \<and> cl_X2 row = [] \<and> cl_X3 row = [] then []
      else
        (let tsssid = cl_TSSSID row; form = cl_Form row;
             recordX1 = processMatchForRecord mapping tsssid (findMatches frequencyMap (form @ cl_X1 row));
             recordX2 = processMatchForRecord mapping tsssid (findMatches frequencyMap (form @ cl_X2 row));
             recordX3 = processMatchForRecord mapping tsssid (findMatches frequencyMap (form @ cl_X3 row))
         in List.map_filter id [recordX1, recordX2, recordX3]))"

fun appendRecords ::
  "frequency_map \<Rightarrow> (string \<Rightarrow> string option) \<Rightarrow> class_row list \<Rightarrow> output_record list \<Rightarrow> output_record list" where
  "appendRecords frequencyMap mapping [] appendedRecords = appendedRecords"
| "appendRecords frequencyMap mapping (row # rows) appendedRecords =
     appendRecords frequencyMap mapping rows (appendedRecords @ recordsOfClassRow frequencyMap mapping row)"

text \<open>The sort key of the final sort: the lowercased grouping text, compared by
  \<open><\<close> on strings, which is lexicographic on the characters.\<close>

definition groupingKey :: "output_record \<Rightarrow> string" where
  "groupingKey r = toLowerCase (grouping r)"

text \<open>The student-profile script as a whole: the existing rows of the student sheet
  followed by the appended records, sorted (stably) by the grouping key and written.\<close>

definition updateStudentProfiles ::
  "json_row list \<Rightarrow> table_row list \<Rightarrow> class_row list \<Rightarrow> output_record list \<Rightarrow> output_record list" where
  "updateStudentProfiles userJsonData tableData classData studentData =
     sort_key groupingKey
       (studentData @ appendRecords (buildFrequencyMap userJsonData) (subSubjectMapping tableData) classData [])"

section \<open>Class-list pipeline: eligibility, deferred store, recovery passes\<close>

definition isEligibleClass :: "string \<Rightarrow> bool" where
  "isEligibleClass classStr =
     (let words = splitWs (trim classStr) in
      if length words \<noteq> 3 then False
      else (let numericMatch = takeWhile isDigit (words ! 0) in
            if numericMatch = [] then False
            else 1 \<le> parseDigits numericMatch \<and> parseDigits numericMatch \<le> 6))"

text \<open>\<open>tokens[i] || ""\<close>.\<close>

definition tokenOr :: "string list \<Rightarrow> nat \<Rightarrow> string" where
  "tokenOr tokens i = (if i < length tokens then tokens ! i else [])"

definition extractFormClass :: "string \<Rightarrow> string" where
  "extractFormClass classStr = tokenOr (splitWs (trim classStr)) 0"

record missing_info =
  mi_group :: string
  mi_subject :: string
  mi_teacher :: string
  mi_sub_code :: string

text \<open>\<open>missingInfoMap\<close> is a \<open>Map\<close> from the group token to the list of entries stored
  under it; a \<open>Map\<close> iterates in insertion order of its keys.\<close>

type_synonym missing_map = "(string \<times> missing_info list) list"

fun storeMissing :: "missing_map \<Rightarrow> string \<Rightarrow> missing_info \<Rightarrow> missing_map" where
  "storeMissing [] g info = [(g, [info])]"
| "storeMissing ((k, entries) # rest) g info =
     (if k = g then (k, entries @ [info]) # rest else (k, entries) # storeMissing rest g info)"

text \<open>\<open>searchMissingInfo\<close>; \<open>form\<close> is the text \<open>String(form)\<close> of the Form cell and
  \<open>take 1 g\<close> is \<open>g.charAt(0)\<close>. \<open>None\<close> is the source's \<open>null\<close>.\<close>

fun searchMissingInfo ::
  "missing_map \<Rightarrow> string \<Rightarrow> string \<Rightarrow> string \<Rightarrow> string \<Rightarrow> missing_info option" where
  "searchMissingInfo [] form cls subject teacher = None"
| "searchMissingInfo ((g, entries) # rest) form cls subject teacher =
     (if take 1 g = form \<and> includesStr g cls
      then (case find (\<lambda>info. mi_subject info = subject \<and> mi_teacher info = teacher) entries of
              Some info \<Rightarrow> Some info
            | None \<Rightarrow> searchMissingInfo rest form cls subject teacher)
      else searchMissingInfo rest form cls subject teacher)"

text \<open>Why a row of the user-profile sheet was not processed; the source stores the
  reason as a sentence built from these values.\<close>

datatype reason =
  IneligibleClass string
| NoMatchingClass string string string

record main_state =
  outputRows :: "output_record list"
  unprocessedRows :: "(nat \<times> reason) list"
  missingInfoMap :: missing_map

text \<open>\<open>subCodeMap\<close>: every table row is entered, a later row replacing an earlier one
  with the same \<open>sub_code\<close>; it is read through \<open>hasOwnProperty\<close>.\<close>

definition subCodeMap :: "table_row list \<Rightarrow> (string \<Rightarrow> string option)" where
  "subCodeMap tableData = foldl (\<lambda>m row. m(t_sub_code row \<mapsto> t_subject_code row)) Map.empty tableData"

text \<open>\<open>parseInt(v, 10) || 0\<close> on a cell text: leading whitespace is skipped, a sign is
  read, then the digit run; no digit run gives \<open>NaN\<close> and hence 0.\<close>

definition parseIntOr0 :: "string \<Rightarrow> int" where
  "parseIntOr0 v =
     (let t = dropWhile isWhitespace v;
          neg = (t \<noteq> [] \<and> hd t = CHR ''-'');
          body = (if t \<noteq> [] \<and> (hd t = CHR ''-'' \<or> hd t = CHR ''+'') then tl t else t);
          ds = takeWhile isDigit body
      in if ds = [] then 0
         else if neg then - int (parseDigits ds) else int (parseDigits ds))"

definition classNo :: "class_row \<Rightarrow> int" where
  "classNo item = parseIntOr0 (cl_Class_no item)"

definition matchingClassRows :: "class_row list \<Rightarrow> string \<Rightarrow> class_row list" where
  "matchingClassRows classListData formClassToken =
     filter (\<lambda>item. trim (cl_Form item) @ trim (cl_Class item) = formClassToken) classListData"

definition directRecord :: "profile_row \<Rightarrow> string option \<Rightarrow> class_row \<Rightarrow> output_record" where
  "directRecord row subjectCode matchRow =
     \<lparr>tsss_id = cl_TSSSID matchRow, a_year = ''2025/2026'', terms = ''Term 1'',
      sub_code = up_sub_code row, subject_code = subjectCode,
      taking = ''TRUE'', self_taking = ''FALSE'',
      grouping = up_class row, grouping_real = up_class row\<rparr>"

text \<open>The body of \<open>userData.forEach\<close> for the row at \<open>index\<close>. The matching class
  rows are sorted by \<open>numA - numB\<close>; the sort is stable.\<close>

definition processUserRow ::
  "class_row list \<Rightarrow> (string \<Rightarrow> string option) \<Rightarrow> main_state \<Rightarrow> nat \<Rightarrow> profile_row \<Rightarrow> main_state" where
  "processUserRow classListData codeMap st index row =
     (let rowNumber = index + 2 in
      if \<not> isEligibleClass (up_class row)
      then st\<lparr>unprocessedRows := unprocessedRows st @ [(rowNumber, IneligibleClass (up_class row))]\<rparr>
      else
        (let formClassToken = extractFormClass (up_class row);
             matching = matchingClassRows classListData formClassToken
         in if matching = []
            then
              (let tokens = splitWs (trim (up_class row));
                   g = tokenOr tokens 0; subject = tokenOr tokens 1; teacher = tokenOr tokens 2;
                   info = \<lparr>mi_group = g, mi_subject = subject, mi_teacher = teacher,
                           mi_sub_code = up_sub_code row\<rparr>
               in st\<lparr>missingInfoMap := storeMissing (missingInfoMap st) g info,
                      unprocessedRows := unprocessedRows st
                         @ [(rowNumber, NoMatchingClass formClassToken subject teacher)]\<rparr>)
            else
              (let subjectCode = codeMap (up_sub_code row)
               in st\<lparr>outputRows := outputRows st
                         @ map (directRecord row subjectCode) (sort_key classNo matching)\<rparr>)))"

fun userPass ::
  "class_row list \<Rightarrow> (string \<Rightarrow> string option) \<Rightarrow> nat \<Rightarrow> profile_row list \<Rightarrow> main_state \<Rightarrow> main_state" where
  "userPass classListData codeMap index [] st = st"
| "userPass classListData codeMap index (row # rows) st =
     userPass classListData codeMap (index + 1) rows (processUserRow classListData codeMap st index row)"

definition recoveredRecord :: "(string \<Rightarrow> string option) \<Rightarrow> class_row \<Rightarrow> missing_info \<Rightarrow> output_record" where
  "recoveredRecord codeMap row missingEntry =
     (let combinedGrouping = mi_group missingEntry @ '' '' @ mi_subject missingEntry @ '' '' @ mi_teacher missingEntry
      in \<lparr>tsss_id = cl_TSSSID row, a_year = ''2025/2026'', terms = ''Term 1'',
          sub_code = mi_sub_code missingEntry, subject_code = codeMap (mi_sub_code missingEntry),
          taking = ''TRUE'', self_taking = ''FALSE'',
          grouping = combinedGrouping, grouping_real = combinedGrouping\<rparr>)"

text \<open>One step of a recovery pass (CHI, MATHS, RSE, ENG): the class-list row is looked
  up in the store with the pass's subject and the row's teacher cell for that subject.\<close>

definition recoverRow ::
  "(string \<Rightarrow> string option) \<Rightarrow> string \<Rightarrow> (class_row \<Rightarrow> string) \<Rightarrow> main_state \<Rightarrow> class_row \<Rightarrow> main_state" where
  "recoverRow codeMap subject teacherOf st row =
     (case searchMissingInfo (missingInfoMap st) (cl_Form row) (cl_Class row) subject (teacherOf row) of
        Some missingEntry \<Rightarrow> st\<lparr>outputRows := outputRows st @ [recoveredRecord codeMap row missingEntry]\<rparr>
      | None \<Rightarrow> st)"

fun recoveryPass ::
  "(string \<Rightarrow> string option) \<Rightarrow> string \<Rightarrow> (class_row \<Rightarrow> string) \<Rightarrow> class_row list \<Rightarrow> main_state \<Rightarrow> main_state" where
  "recoveryPass codeMap subject teacherOf [] st = st"
| "recoveryPass codeMap subject teacherOf (row # rows) st =
     recoveryPass codeMap subject teacherOf rows (recoverRow codeMap subject teacherOf st row)"

text \<open>The stored entries whose group has exactly one digit and whose subject is
  \<open>(M2)\<close>, in store order.\<close>

definition missingSpecific :: "missing_map \<Rightarrow> missing_info list" where
  "missingSpecific m =
     concat (map (\<lambda>(g, entries).
        filter (\<lambda>info. length (filter isDigit (mi_group info)) = 1 \<and> mi_subject info = ''(M2)'') entries) m)"

text \<open>\<open>Number(row.Form)\<close> is modelled for a Form cell that is blank (0) or a decimal
  whole number; any other text counts as \<open>NaN\<close> (\<open>None\<close>), which is greater than
  nothing.\<close>

definition numberOfCell :: "string \<Rightarrow> nat option" where
  "numberOfCell v =
     (let t = trim v in
      if t = [] then Some 0
      else if list_all isDigit t then Some (parseDigits t)
      else None)"

definition m2Record :: "class_row \<Rightarrow> nat \<Rightarrow> missing_info \<Rightarrow> output_record" where
  "m2Record row formNumber match =
     (let g = showNat formNumber @ '' (M2) '' @ mi_teacher match
      in \<lparr>tsss_id = cl_TSSSID row, a_year = ''2025/2026'', terms = ''Term 1'',
          sub_code = ''DMA21'', subject_code = Some ''DMATH2'',
          taking = ''TRUE'', self_taking = ''FALSE'',
          grouping = g, grouping_real = g\<rparr>)"

definition m2Row :: "missing_info list \<Rightarrow> main_state \<Rightarrow> class_row \<Rightarrow> main_state" where
  "m2Row specific st row =
     (case numberOfCell (cl_Form row) of
        None \<Rightarrow> st
      | Some formNumber \<Rightarrow>
          (if 3 < formNumber \<and> cl_M1_2 row \<noteq> [] \<and> includesStr (cl_M1_2 row) ''M2''
           then (case find (\<lambda>entry. startsWith (mi_group entry) (showNat formNumber)) specific of
                   Some match \<Rightarrow> st\<lparr>outputRows := outputRows st @ [m2Record row formNumber match]\<rparr>
                 | None \<Rightarrow> st)
           else st))"

text \<open>\<open>main\<close>: the user pass, the four recovery passes, the M2 pass. The sheet that is
  written holds \<open>outputRows\<close> of the final state, in that order.\<close>

definition initialState :: main_state where
  "initialState = \<lparr>outputRows = [], unprocessedRows = [], missingInfoMap = []\<rparr>"

definition main :: "profile_row list \<Rightarrow> table_row list \<Rightarrow> class_row list \<Rightarrow> main_state" where
  "main userData tableData classListData =
     (let codeMap = subCodeMap tableData;
          st0 = initialState;
          st1 = userPass classListData codeMap 0 userData st0;
          st2 = recoveryPass codeMap ''CHI'' cl_CHI classListData st1;
          st3 = recoveryPass codeMap ''MATHS'' cl_MATHS classListData st2;
          st4 = recoveryPass codeMap ''RSE'' cl_RSE classListData st3;
          st5 = recoveryPass codeMap ''ENG'' cl_ENG classListData st4
      in foldl (m2Row (missingSpecific (missingInfoMap st5))) st5 classListData)"

section \<open>Notions used in the statements\<close>

text \<open>The codes a grouping text ends up with: the sub_code that Part 4 stores for it,
  and the subject_code that the record builder then looks up for that sub_code in the
  reference table.\<close>

definition resolvedCodes :: "sheet \<Rightarrow> table_row list \<Rightarrow> string \<Rightarrow> string \<times> string" where
  "resolvedCodes tableSheet tableData groupingVal =
     (let subCode = convertSubCode (trim (snd (resolveSubCode tableSheet groupingVal)))
      in (subCode, lookupSubjectCode (subSubjectMapping tableData) subCode))"

text \<open>The entries of an index whose key contains the query text.\<close>

definition matchingEntries :: "string \<Rightarrow> frequency_map \<Rightarrow> frequency_map" where
  "matchingEntries q es = filter (\<lambda>(key, e). includesStr key q) es"

text \<open>The normalization as the specification words it, for comparison with \<open>cellKey\<close>
  and \<open>removeHyphens\<close>: \<open>normalize(raw)\<close> trims, collapses internal whitespace runs to one
  space and, if the value contains a hyphen, removes all hyphens. The flag of
  \<open>collapseRun\<close> says that the character before was whitespace.\<close>

fun collapseRun :: "bool \<Rightarrow> string \<Rightarrow> string" where
  "collapseRun inRun [] = []"
| "collapseRun inRun (c # s) =
     (if isWhitespace c
      then (if inRun then collapseRun True s else CHR '' '' # collapseRun True s)
      else c # collapseRun False s)"

definition spec_normalize :: "string \<Rightarrow> string" where
  "spec_normalize raw = removeHyphens (collapseRun False (trim raw))"

text \<open>The records the user pass emits for one row of the user-profile sheet: one per
  matching class-list row, in the order of the sorted matching rows; none for a row that
  is not eligible.\<close>

definition directRecords :: "class_row list \<Rightarrow> (string \<Rightarrow> string option) \<Rightarrow> profile_row \<Rightarrow> output_record list" where
  "directRecords classListData codeMap row =
     map (directRecord row (codeMap (up_sub_code row)))
       (sort_key classNo (matchingClassRows classListData (extractFormClass (up_class row))))"

definition userRecords :: "class_row list \<Rightarrow> (string \<Rightarrow> string option) \<Rightarrow> profile_row \<Rightarrow> output_record list" where
  "userRecords classListData codeMap row =
     (if isEligibleClass (up_class row) then directRecords classListData codeMap row else [])"

text \<open>The record a recovery pass emits for one class-list row, given the store.\<close>

definition recoveredOf ::
  "(string \<Rightarrow> string option) \<Rightarrow> string \<Rightarrow> (class_row \<Rightarrow> string) \<Rightarrow> missing_map \<Rightarrow> class_row \<Rightarrow> output_record option" where
  "recoveredOf codeMap subject teacherOf store row =
     map_option (recoveredRecord codeMap row)
       (searchMissingInfo store (cl_Form row) (cl_Class row) subject (teacherOf row))"

text \<open>The record the M2 pass emits for one class-list row.\<close>

definition m2Of :: "missing_info list \<Rightarrow> class_row \<Rightarrow> output_record option" where
  "m2Of specific row =
     (case numberOfCell (cl_Form row) of
        None \<Rightarrow> None
      | Some formNumber \<Rightarrow>
          (if 3 < formNumber \<and> cl_M1_2 row \<noteq> [] \<and> includesStr (cl_M1_2 row) ''M2''
           then map_option (m2Record row formNumber)
                  (find (\<lambda>entry. startsWith (mi_group entry) (showNat formNumber)) specific)
           else None))"

section \<open>Concrete inputs\<close>

text \<open>A profile row of form 1 whose code carries the senior prefix, and the row of the
  scenario with class \<open>7Z\<close> and code \<open>PHY1\<close>.\<close>

definition rowJuniorDMA11 :: profile_row where
  "rowJuniorDMA11 = \<lparr>up_user = ''SUW'', up_sub_code = ''DMA11'', up_class = ''1A MATHS SUW'',
                      up_grouping = ''1A MATHS SUW'', up_grouping_real = ''1A MATHS SUW''\<rparr>"

definition row7Z :: profile_row where
  "row7Z = \<lparr>up_user = ''NEW'', up_sub_code = ''PHY1'', up_class = ''7Z'',
             up_grouping = ''7Z'', up_grouping_real = ''7Z''\<rparr>"

text \<open>A reference sheet whose only row has \<open>DSE-PE1\<close> in column B, and a reference
  table that files \<open>DMA21\<close> under \<open>MATH\<close>, once cell by cell and once as rows.\<close>

definition sheetDSE :: sheet where
  "sheetDSE = [[''sub_code'', ''subject_code''], [''OTHER'', ''DSE-PE1'']]"

definition sheetMath :: sheet where
  "sheetMath = [[''sub_code'', ''subject_code''], [''DMA21'', ''MATH'']]"

definition tableMath :: "table_row list" where
  "tableMath = [\<lparr>t_sub_code = ''DMA21'', t_subject_code = ''MATH''\<rparr>]"

text \<open>Four rows of a user-profile sheet.\<close>

definition userJsonEx :: "json_row list" where
  "userJsonEx =
     [[(''user'', ''BYC''), (''sub_code'', ''DCHIS1''), (''class'', ''6CHIST2 BYC'')],
      [(''user'', ''BYC''), (''sub_code'', ''DCHIS1''), (''class'', ''6CHIST2 BYC'')],
      [(''user'', ''SUW''), (''sub_code'', ''DMA-11''), (''class'', '' 6-CHIST2  SUW '')],
      [(''user'', ''12''), (''sub_code'', []), (''class'', ''7'')]]"

definition classRow :: "string \<Rightarrow> string \<Rightarrow> string \<Rightarrow> string \<Rightarrow> string \<Rightarrow> class_row" where
  "classRow tsssid form cls no chi =
     \<lparr>cl_TSSSID = tsssid, cl_Form = form, cl_Class = cls, cl_Class_no = no,
      cl_X1 = [], cl_X2 = [], cl_X3 = [], cl_CHI = chi, cl_MATHS = [], cl_RSE = [], cl_ENG = [],
      cl_M1_2 = []\<rparr>"

text \<open>A user-profile row whose group token \<open>3MJPW4\<close> is no class of the class list, and
  a class list with two form-3 classes whose letters occur in that token and whose
  Chinese teacher is the row's teacher.\<close>

definition userDeferred :: "profile_row list" where
  "userDeferred = [\<lparr>up_user = ''NEW'', up_sub_code = ''CHN1'', up_class = ''3MJPW4 CHI NEW'',
                    up_grouping = ''3MJPW4 CHI NEW'', up_grouping_real = ''3MJPW4 CHI NEW''\<rparr>]"

definition classListDeferred :: "class_row list" where
  "classListDeferred = [classRow ''S1'' ''3'' ''J'' ''1'' ''NEW'', classRow ''S2'' ''3'' ''M'' ''2'' ''NEW'']"

definition storeDeferred :: main_state where
  "storeDeferred = userPass classListDeferred (subCodeMap []) 0 userDeferred initialState"

text \<open>Two user-profile rows for which Part 4 found no sub_code, and a class list that
  has their classes.\<close>

definition userUnresolved :: "profile_row list" where
  "userUnresolved = [\<lparr>up_user = ''JAT'', up_sub_code = [], up_class = ''2B CES JAT'',
                      up_grouping = ''2B CES JAT'', up_grouping_real = ''2B CES JAT''\<rparr>,
                     \<lparr>up_user = ''JAT'', up_sub_code = [], up_class = ''1A CES JAT'',
                      up_grouping = ''1A CES JAT'', up_grouping_real = ''1A CES JAT''\<rparr>]"

definition classListAB :: "class_row list" where
  "classListAB = [classRow ''S9'' ''2'' ''B'' ''1'' [], classRow ''S1'' ''1'' ''A'' ''1'' []]"

text \<open>A user-profile row of class 1A, and a class list with three students of 1A whose
  \<open>Class no\<close> cells read 12, 2 and a text without digits.\<close>

definition rowCES :: profile_row where
  "rowCES = \<lparr>up_user = ''JAT'', up_sub_code = ''CES1'', up_class = ''1A CES JAT'',
             up_grouping = ''1A CES JAT'', up_grouping_real = ''1A CES JAT''\<rparr>"

definition classList1A :: "class_row list" where
  "classList1A = [classRow ''S3'' ''1'' ''A'' ''12'' [], classRow ''S4'' ''1'' ''B'' ''1'' [],
                  classRow ''S5'' ''1'' ''A'' ''2'' [], classRow ''S6'' ''1'' ''A'' ''n/a'' []]"

text \<open>A reference table that files \<open>DCI11\<close> under \<open>DCHIS\<close>, a class-list row with the
  elective \<open>CHIST2\<close>, and the record the student-profile script builds for it from the
  four example rows of the user-profile sheet.\<close>

definition tableHist :: "table_row list" where
  "tableHist = [\<lparr>t_sub_code = ''DCI11'', t_subject_code = ''DCHIS''\<rparr>]"

definition classDataHist :: "class_row list" where
  "classDataHist =
     [\<lparr>cl_TSSSID = ''S7'', cl_Form = ''6'', cl_Class = ''A'', cl_Class_no = ''1'',
       cl_X1 = ''CHIST2'', cl_X2 = ''ZZ'', cl_X3 = ''YY'', cl_CHI = [], cl_MATHS = [], cl_RSE = [],
       cl_ENG = [], cl_M1_2 = []\<rparr>]"

definition recordHist :: output_record where
  "recordHist = \<lparr>tsss_id = ''S7'', a_year = ''2025/2026'', terms = ''Term 1'',
      sub_code = ''DCI11'', subject_code = Some ''DCHIS'', taking = ''TRUE'', self_taking = ''FALSE'',
      grouping = ''6CHIST2 BYC'', grouping_real = ''6CHIST2 BYC''\<rparr>"

text \<open>Two user-profile rows out of order by user.\<close>

definition rowsByUser :: "profile_row list" where
  "rowsByUser = [\<lparr>up_user = ''suw'', up_sub_code = [], up_class = ''6MJPWT2 MATHS SUW'',
                   up_grouping = ''6MJPWT2 MATHS SUW'', up_grouping_real = ''6MJPWT2 MATHS SUW''\<rparr>,
                 \<lparr>up_user = ''BYC'', up_sub_code = [], up_class = ''4M2 BYC'',
                   up_grouping = ''4M2 BYC'', up_grouping_real = ''4M2 BYC''\<rparr>]"

section \<open>The two verification passes\<close>

lemma firstLevelPass_eq:
  "firstLevelPass rows (k, acc) =
     (k + length (filter (\<lambda>r. fst (firstLevelVerification r)) rows),
      acc @ map (\<lambda>r. snd (firstLevelVerification r)) rows)"
  by (induction rows arbitrary: k acc) (auto split: prod.splits)

lemma secondLevelPass_eq:
  "secondLevelPass rows acc = acc @ map secondLevelVerification rows"
  by (induction rows arbitrary: acc) auto

lemma verifyUserProfiles_eq:
  "verifyUserProfiles data =
     (length (filter (\<lambda>r. fst (firstLevelVerification r)) data),
      map (\<lambda>r. secondLevelVerification (snd (firstLevelVerification r))) data)"
  by (simp add: verifyUserProfiles_def firstLevelPass_eq secondLevelPass_eq)

lemma secondLevel_sub_code:
  "up_sub_code (secondLevelVerification r) =
     (case secondLevelSubCodeMapping (toUpperCase (trim (up_sub_code r))) of
        Some replacement \<Rightarrow> replacement | None \<Rightarrow> up_sub_code r)"
  by (simp add: secondLevelVerification_def Let_def split: option.splits)

text \<open>
  Claim C4. The rows written by the verification script are, row by row, the result of
  second-level verification applied to the row that first-level verification left: the
  first pass has visited every row before the second pass starts, and the code that the
  second level looks up (trimmed, uppercased) and replaces when it is mapped is the
  \<open>sub_code\<close> after the first level, not the one the row had before it.
\<close>

theorem second_level_works_on_first_level_result:
  "snd (verifyUserProfiles data)
     = map (\<lambda>row. secondLevelVerification (snd (firstLevelVerification row))) data
   \<and> (\<forall>i < length data.
        up_sub_code (snd (verifyUserProfiles data) ! i) =
          (case secondLevelSubCodeMapping
                  (toUpperCase (trim (up_sub_code (snd (firstLevelVerification (data ! i)))))) of
             Some replacement \<Rightarrow> replacement
           | None \<Rightarrow> up_sub_code (snd (firstLevelVerification (data ! i)))))"
  by (simp add: verifyUserProfiles_eq secondLevel_sub_code)

text \<open>On a form-1 row with code \<open>DMA11\<close> the first level puts \<open>MATH\<close>, which the
  second level leaves; applied to the original code the second level would have put
  \<open>DMATH1\<close>.\<close>

theorem second_level_works_on_first_level_result_witness:
  "up_sub_code (snd (firstLevelVerification rowJuniorDMA11)) = ''MATH''
   \<and> map up_sub_code (snd (verifyUserProfiles [rowJuniorDMA11])) = [''MATH'']
   \<and> up_sub_code (secondLevelVerification rowJuniorDMA11) = ''DMATH1''"
proof -
  have a: "up_sub_code (snd (firstLevelVerification rowJuniorDMA11)) = ''MATH''"
    by code_simp
  have b: "up_sub_code (secondLevelVerification (snd (firstLevelVerification rowJuniorDMA11))) = ''MATH''"
    by code_simp
  have c: "up_sub_code (secondLevelVerification rowJuniorDMA11) = ''DMATH1''"
    by code_simp
  from second_level_works_on_first_level_result [of "[rowJuniorDMA11]"]
  have "snd (verifyUserProfiles [rowJuniorDMA11])
          = [secondLevelVerification (snd (firstLevelVerification rowJuniorDMA11))]"
    by simp
  with a b c show ?thesis by simp
qed

text \<open>
  Claim C5. First-level verification reports a row invalid exactly when the class cell
  has no leading number, or the number is at most 3 and the (trimmed) sub_code starts
  with D or d, or the number is above 3 and the sub_code does not start with D or d.
  On an invalid row whose uppercased sub_code is not a key of the first-level table the
  row is left as it was, and the row still adds one to the invalid count; the count the
  script reports is the number of invalid rows.
\<close>

theorem first_level_invalid_iff:
  "(fst (firstLevelVerification row) \<longleftrightarrow>
      (extractClassNumber (up_class row) = None
       \<or> (\<exists>n. extractClassNumber (up_class row) = Some n \<and> n \<le> 3
                \<and> startsWithD (trim (up_sub_code row)))
       \<or> (\<exists>n. extractClassNumber (up_class row) = Some n \<and> 3 < n
                \<and> \<not> startsWithD (trim (up_sub_code row)))))
   \<and> (fst (firstLevelVerification row)
        \<and> firstLevelSubCodeMapping (toUpperCase (trim (up_sub_code row))) = None
      \<longrightarrow> snd (firstLevelVerification row) = row
          \<and> firstLevelPass (row # rows) (k, acc) = firstLevelPass rows (k + 1, acc @ [row]))
   \<and> fst (verifyUserProfiles data) = length (filter (\<lambda>r. fst (firstLevelVerification r)) data)"
  by (auto simp: firstLevelVerification_def Let_def firstLevelReplace_def verifyUserProfiles_eq
           split: option.splits)

text \<open>The scenario: class \<open>7Z\<close>, sub_code \<open>PHY1\<close>.\<close>

theorem first_level_invalid_iff_witness:
  "extractClassNumber (up_class row7Z) = Some 7
   \<and> \<not> startsWithD (trim (up_sub_code row7Z))
   \<and> fst (firstLevelVerification row7Z)
   \<and> firstLevelSubCodeMapping (toUpperCase (trim (up_sub_code row7Z))) = None
   \<and> snd (firstLevelVerification row7Z) = row7Z
   \<and> up_sub_code (snd (firstLevelVerification row7Z)) = ''PHY1''
   \<and> firstLevelPass [row7Z] (0, []) = (1, [row7Z])"
proof -
  have n: "extractClassNumber (up_class row7Z) = Some 7" by code_simp
  have d: "\<not> startsWithD (trim (up_sub_code row7Z))" by code_simp
  have m: "firstLevelSubCodeMapping (toUpperCase (trim (up_sub_code row7Z))) = None" by code_simp
  have s: "up_sub_code row7Z = ''PHY1''" by (simp add: row7Z_def)
  from first_level_invalid_iff [of row7Z "[]" 0 "[]"] n d
  have i: "fst (firstLevelVerification row7Z)" by simp
  from first_level_invalid_iff [of row7Z "[]" 0 "[]"] i m
  have "snd (firstLevelVerification row7Z) = row7Z
        \<and> firstLevelPass [row7Z] (0, []) = (1, [row7Z])" by simp
  with n d i m s show ?thesis by simp
qed

section \<open>The resolver's priorities\<close>

lemma startsWith_map: "startsWith s t \<Longrightarrow> startsWith (map f s) (map f t)"
  by (induction s t rule: startsWith.induct) auto

lemma includesStr_map: "includesStr s t \<Longrightarrow> includesStr (map f s) (map f t)"
  by (induction s) (auto dest: startsWith_map [where f = f])

lemma toUpperCase_DSE: "toUpperCase ''DSE'' = ''DSE''"
  by code_simp

lemma includes_DSE_upper: "includesStr g ''DSE'' \<Longrightarrow> includesStr (toUpperCase g) ''DSE''"
  using includesStr_map [of g "''DSE''" upperChar] toUpperCase_DSE
  by (simp add: toUpperCase_def)

text \<open>
  Claim C2. When the grouping text contains \<open>DSE\<close> and the candidate derived from it
  is a key of the DSE table, the resolver returns the table's sub_code for that key,
  whatever the reference sheet holds.
\<close>

theorem dse_override_has_priority:
  "includesStr groupingVal ''DSE'' \<Longrightarrow> dseMapping (newSubjectCode groupingVal) = Some mapped
   \<Longrightarrow> resolveSubCode tableSheet groupingVal = (True, mapped)"
  by (simp add: resolveSubCode_def Let_def includes_DSE_upper)

text \<open>With a reference sheet on which the generic scan finds an exact match for the
  candidate and would give \<open>OTHER\<close>.\<close>

theorem dse_override_has_priority_witness:
  "includesStr ''4DSE-PE1 ABC'' ''DSE''
   \<and> dseMapping (newSubjectCode ''4DSE-PE1 ABC'') = Some ''DPED1''
   \<and> genericScan sheetDSE (newSubjectCode ''4DSE-PE1 ABC'') = (True, ''OTHER'')
   \<and> resolveSubCode sheetDSE ''4DSE-PE1 ABC'' = (True, ''DPED1'')"
proof -
  have a: "includesStr ''4DSE-PE1 ABC'' ''DSE''" by code_simp
  have b: "dseMapping (newSubjectCode ''4DSE-PE1 ABC'') = Some ''DPED1''" by code_simp
  have c: "genericScan sheetDSE (newSubjectCode ''4DSE-PE1 ABC'') = (True, ''OTHER'')"
    by code_simp
  from dse_override_has_priority [OF a b] a b c show ?thesis by simp
qed

lemma trim_M2: "trim ''M2'' = ''M2''"
  by code_simp

lemma stripParens_M2: "stripParens ''M2'' = ''M2''"
  by code_simp

lemma renameCandidate_M2: "renameCandidate ''M2'' = ''M2''"
  by code_simp

lemma dseMapping_M2: "dseMapping ''M2'' = None"
  by code_simp

lemma convertSubCode_DMA21: "convertSubCode (trim ''DMA21'') = ''DMA21''"
  by code_simp

text \<open>
  Claim C6, as stated, at the grouping \<open>4M2 SUW\<close> and a reference table that files
  \<open>DMA21\<close> under \<open>MATH\<close>: the grouping has two tokens and its first token strips to
  \<open>M2\<close>, the sub_code is \<open>DMA21\<close>, but the subject_code is the table's \<open>MATH\<close>, not
  \<open>DMATH2\<close>.
\<close>

theorem m2_pair_depends_on_table_counterexample:
  "groupingParts ''4M2 SUW'' = [''4M2'', ''SUW'']
   \<and> stripLeadingDigits ''4M2'' = ''M2''
   \<and> resolvedCodes sheetMath tableMath ''4M2 SUW'' = (''DMA21'', ''MATH'')
   \<and> resolvedCodes sheetMath tableMath ''4M2 SUW'' \<noteq> (''DMA21'', ''DMATH2'')"
  by code_simp

text \<open>
  Claim C6, amended. For every grouping of two tokens whose first token, with its
  leading digits removed, is exactly \<open>M2\<close>, the resolver's special case fires and gives
  the sub_code \<open>DMA21\<close>, whatever the reference sheet holds. The resolver gives no
  subject_code: the subject_code is the one the reference table files \<open>DMA21\<close> under.
\<close>

theorem m2_special_case_sub_code:
  "groupingParts groupingVal = [t0, t1] \<Longrightarrow> stripLeadingDigits t0 = ''M2''
   \<Longrightarrow> resolveSubCode tableSheet groupingVal = (True, ''DMA21'')
       \<and> resolvedCodes tableSheet tableData groupingVal
           = (''DMA21'', lookupSubjectCode (subSubjectMapping tableData) ''DMA21'')"
  by (simp add: resolvedCodes_def resolveSubCode_def newSubjectCode_def Let_def trim_M2
        stripParens_M2 renameCandidate_M2 dseMapping_M2 convertSubCode_DMA21)

theorem m2_special_case_sub_code_witness:
  "groupingParts ''4M2 SUW'' = [''4M2'', ''SUW'']
   \<and> stripLeadingDigits ''4M2'' = ''M2''
   \<and> resolveSubCode sheetMath ''4M2 SUW'' = (True, ''DMA21'')
   \<and> resolvedCodes sheetMath tableMath ''4M2 SUW''
       = (''DMA21'', lookupSubjectCode (subSubjectMapping tableMath) ''DMA21'')"
proof -
  have a: "groupingParts ''4M2 SUW'' = [''4M2'', ''SUW'']" by code_simp
  have b: "stripLeadingDigits ''4M2'' = ''M2''" by code_simp
  from m2_special_case_sub_code [OF a b, of sheetMath tableMath] a b show ?thesis by simp
qed

section \<open>The substring matcher\<close>

lemma set_foldl_setAdd: "set (foldl setAdd c xs) = set c \<union> set xs"
  by (induction xs arbitrary: c) (auto simp: setAdd_def)

lemma distinct_foldl_setAdd: "distinct c \<Longrightarrow> distinct (foldl setAdd c xs)"
  by (induction xs arbitrary: c) (auto simp: setAdd_def)

lemma findLoop_count:
  "mr_count (findLoop q es acc)
     = mr_count acc + sum_list (map (\<lambda>(key, e). fe_count e) (matchingEntries q es))"
  by (induction es arbitrary: acc) (auto simp: matchingEntries_def)

lemma findLoop_matches:
  "mr_matches (findLoop q es acc)
     = mr_matches acc @ map (\<lambda>(key, e). matchLabel key e) (matchingEntries q es)"
  by (induction es arbitrary: acc) (auto simp: matchingEntries_def)

lemma findLoop_subCodes_set:
  "set (mr_subCodes (findLoop q es acc))
     = set (mr_subCodes acc) \<union> (\<Union>(key, e) \<in> set (matchingEntries q es). set (fe_subCodes e))"
  by (induction es arbitrary: acc) (auto simp: matchingEntries_def set_foldl_setAdd)

lemma findLoop_subCodes_distinct:
  "distinct (mr_subCodes acc) \<Longrightarrow> distinct (mr_subCodes (findLoop q es acc))"
  by (induction es arbitrary: acc) (auto simp: distinct_foldl_setAdd)

lemma findLoop_no_match: "matchingEntries q es = [] \<Longrightarrow> findLoop q es acc = acc"
  by (induction es arbitrary: acc) (auto simp: matchingEntries_def split: if_splits)

lemma mset_forInOrder: "mset (forInOrder fm) = mset fm"
  by (simp add: forInOrder_def)

lemma sum_matching_forInOrder:
  "sum_list (map (\<lambda>(key, e). fe_count e) (matchingEntries q (forInOrder fm)))
     = sum_list (map (\<lambda>(key, e). fe_count e) (matchingEntries q fm))"
proof -
  have "mset (matchingEntries q (forInOrder fm)) = mset (matchingEntries q fm)"
    by (simp add: matchingEntries_def mset_forInOrder)
  then have "mset (map (\<lambda>(key, e). fe_count e) (matchingEntries q (forInOrder fm)))
             = mset (map (\<lambda>(key, e). fe_count e) (matchingEntries q fm))"
    by (metis mset_map)
  then show ?thesis by (metis sum_mset_sum_list)
qed

text \<open>
  Claim C3. For a query \<open>s\<close>, \<open>findMatches\<close> returns as count the sum of the counts of
  the index entries whose key contains the hyphen-stripped query, as matches the label
  \<open>key (count)\<close> of each such entry in the order the index is scanned, and as subCodes a
  list without duplicates holding exactly the sub-codes of those entries. When no key
  matches, and so on the empty index, the result is count 0 with no matches and no
  sub-codes.
\<close>

theorem findMatches_result:
  "mr_count (findMatches fm s)
     = sum_list (map (\<lambda>(key, e). fe_count e) (matchingEntries (removeHyphens s) fm))
   \<and> mr_matches (findMatches fm s)
     = map (\<lambda>(key, e). matchLabel key e) (matchingEntries (removeHyphens s) (forInOrder fm))
   \<and> distinct (mr_subCodes (findMatches fm s))
   \<and> set (mr_subCodes (findMatches fm s))
     = (\<Union>(key, e) \<in> set (matchingEntries (removeHyphens s) fm). set (fe_subCodes e))
   \<and> (matchingEntries (removeHyphens s) fm = [] \<longrightarrow>
        findMatches fm s = \<lparr>mr_count = 0, mr_matches = [], mr_subCodes = []\<rparr>)
   \<and> findMatches [] s = \<lparr>mr_count = 0, mr_matches = [], mr_subCodes = []\<rparr>"
proof -
  let ?q = "removeHyphens s"
  let ?init = "\<lparr>mr_count = 0, mr_matches = [], mr_subCodes = []\<rparr>"
  have set_eq: "set (matchingEntries ?q (forInOrder fm)) = set (matchingEntries ?q fm)"
    using mset_forInOrder [of fm] by (metis matchingEntries_def mset_filter set_mset_mset)
  have c1: "mr_count (findMatches fm s)
              = sum_list (map (\<lambda>(key, e). fe_count e) (matchingEntries ?q fm))"
    by (simp add: findMatches_def findLoop_count sum_matching_forInOrder)
  have c2: "mr_matches (findMatches fm s)
              = map (\<lambda>(key, e). matchLabel key e) (matchingEntries ?q (forInOrder fm))"
    by (simp add: findMatches_def findLoop_matches)
  have c3: "distinct (mr_subCodes (findMatches fm s))"
    by (simp add: findMatches_def findLoop_subCodes_distinct)
  have c4: "set (mr_subCodes (findMatches fm s))
              = (\<Union>(key, e) \<in> set (matchingEntries ?q fm). set (fe_subCodes e))"
    by (simp add: findMatches_def findLoop_subCodes_set set_eq)
  have c5: "findMatches fm s = ?init" if "matchingEntries ?q fm = []"
  proof -
    from that set_eq have "matchingEntries ?q (forInOrder fm) = []" by simp
    then show ?thesis by (simp add: findMatches_def findLoop_no_match)
  qed
  have c6: "findMatches [] s = ?init"
    by (simp add: findMatches_def forInOrder_def)
  from c1 c2 c3 c4 c5 c6 show ?thesis by blast
qed

text \<open>On the index of the four example rows: no key contains \<open>ZZ\<close>; the query
  \<open>6-CHIST2\<close> matches two keys with counts 2 and 1.\<close>

theorem findMatches_result_witness:
  "matchingEntries (removeHyphens ''ZZ'') (buildFrequencyMap userJsonEx) = []
   \<and> findMatches (buildFrequencyMap userJsonEx) ''ZZ''
       = \<lparr>mr_count = 0, mr_matches = [], mr_subCodes = []\<rparr>
   \<and> findMatches (buildFrequencyMap userJsonEx) ''6-CHIST2''
       = \<lparr>mr_count = 3, mr_matches = [''6CHIST2 BYC (2)'', ''6CHIST2  SUW (1)''],
          mr_subCodes = [''DCHIS1'', ''DMA-11'']\<rparr>"
proof -
  have a: "matchingEntries (removeHyphens ''ZZ'') (buildFrequencyMap userJsonEx) = []"
    by code_simp
  have b: "findMatches (buildFrequencyMap userJsonEx) ''6-CHIST2''
       = \<lparr>mr_count = 3, mr_matches = [''6CHIST2 BYC (2)'', ''6CHIST2  SUW (1)''],
          mr_subCodes = [''DCHIS1'', ''DMA-11'']\<rparr>"
    by code_simp
  from findMatches_result [of "buildFrequencyMap userJsonEx" "''ZZ''"] a
  have "findMatches (buildFrequencyMap userJsonEx) ''ZZ''
          = \<lparr>mr_count = 0, mr_matches = [], mr_subCodes = []\<rparr>"
    by blast
  with a b show ?thesis by simp
qed

section \<open>What is indexed, and under which text\<close>

lemma removeHyphens_filter: "removeHyphens s = filter (\<lambda>c. c \<noteq> CHR ''-'') s"
proof (cases "CHR ''-'' \<in> set s")
  case True
  then show ?thesis by (simp add: removeHyphens_def)
next
  case False
  then have "\<forall>c \<in> set s. c \<noteq> CHR ''-''" by auto
  then have "filter (\<lambda>c. c \<noteq> CHR ''-'') s = s" by (simp add: filter_id_conv)
  with False show ?thesis by (simp add: removeHyphens_def)
qed

lemma keys_bumpEntry: "fst ` set (bumpEntry k sc fm) = insert k (fst ` set fm)"
  by (induction k sc fm rule: bumpEntry.induct) (simp_all add: insert_commute)

lemma keys_indexCell:
  "fst ` set (indexCell row fm v) = fst ` set fm \<union> {k. cellKey v = Some k}"
  by (cases "cellKey v") (simp_all add: indexCell_def keys_bumpEntry)

lemma keys_indexCells:
  "fst ` set (foldl (indexCell row) fm vs)
     = fst ` set fm \<union> {k. \<exists>v \<in> set vs. cellKey v = Some k}"
proof (induction vs arbitrary: fm)
  case Nil
  then show ?case by simp
next
  case (Cons v vs)
  have "fst ` set (foldl (indexCell row) fm (v # vs))
          = fst ` set (indexCell row fm v) \<union> {k. \<exists>v \<in> set vs. cellKey v = Some k}"
    by (simp add: Cons.IH)
  also have "\<dots> = fst ` set fm \<union> {k. \<exists>u \<in> set (v # vs). cellKey u = Some k}"
    by (auto simp: keys_indexCell)
  finally show ?case .
qed

lemma keys_indexRow:
  "fst ` set (indexRow fm row)
     = fst ` set fm \<union> {k. \<exists>v \<in> snd ` set row. cellKey v = Some k}"
  by (simp add: indexRow_def keys_indexCells)

lemma keys_indexRows:
  "fst ` set (foldl indexRow fm rows)
     = fst ` set fm \<union> {k. \<exists>row \<in> set rows. \<exists>v \<in> snd ` set row. cellKey v = Some k}"
proof (induction rows arbitrary: fm)
  case Nil
  then show ?case by simp
next
  case (Cons row rows)
  have "fst ` set (foldl indexRow fm (row # rows))
          = fst ` set (indexRow fm row)
            \<union> {k. \<exists>r \<in> set rows. \<exists>v \<in> snd ` set r. cellKey v = Some k}"
    by (simp add: Cons.IH)
  also have "\<dots> = fst ` set fm
            \<union> {k. \<exists>r \<in> set (row # rows). \<exists>v \<in> snd ` set r. cellKey v = Some k}"
    unfolding keys_indexRow by auto
  finally show ?case .
qed

text \<open>
  Claim C7, as stated, at the cell value \<open>6A  CHI\<close> (two spaces inside) and at the
  query \<open> 6-A\<close> (a leading space): the value is indexed with both spaces, where the
  normalization of the claim has one, and the query keeps its leading space, where the
  normalization of the claim trims it.
\<close>

theorem normalization_collapses_whitespace_counterexample:
  "cellKey ''6A  CHI'' = Some ''6A  CHI''
   \<and> spec_normalize ''6A  CHI'' = ''6A CHI''
   \<and> cellKey ''6A  CHI'' \<noteq> Some (spec_normalize ''6A  CHI'')
   \<and> removeHyphens '' 6-A'' = '' 6A''
   \<and> removeHyphens '' 6-A'' \<noteq> spec_normalize '' 6-A''"
  by code_simp

text \<open>
  Claim C7, amended. A raw cell value is trimmed, skipped when that leaves nothing, and
  otherwise entered in the frequency index under the trimmed text with every hyphen
  removed; whitespace inside the value is kept as it is. The keys of the index are
  exactly the texts so obtained from the cells of the rows. A \<open>findMatches\<close> query is not
  trimmed: it is used with its hyphens removed and nothing else changed.
\<close>

theorem index_normalization:
  "cellKey raw = (if trim raw = [] then None else Some (filter (\<lambda>c. c \<noteq> CHR ''-'') (trim raw)))
   \<and> fst ` set (buildFrequencyMap userJsonData)
       = {k. \<exists>row \<in> set userJsonData. \<exists>v \<in> snd ` set row. cellKey v = Some k}
   \<and> findMatches fm q
       = findLoop (filter (\<lambda>c. c \<noteq> CHR ''-'') q) (forInOrder fm)
           \<lparr>mr_count = 0, mr_matches = [], mr_subCodes = []\<rparr>"
  by (simp add: cellKey_def Let_def removeHyphens_filter buildFrequencyMap_def keys_indexRows
        findMatches_def)

theorem index_normalization_witness:
  "userJsonEx ! 2 \<in> set userJsonEx
   \<and> '' 6-CHIST2  SUW '' \<in> snd ` set (userJsonEx ! 2)
   \<and> cellKey '' 6-CHIST2  SUW '' = Some ''6CHIST2  SUW''
   \<and> ''6CHIST2  SUW'' \<in> fst ` set (buildFrequencyMap userJsonEx)"
proof -
  have a: "userJsonEx ! 2 \<in> set userJsonEx" by (simp add: userJsonEx_def)
  have b: "'' 6-CHIST2  SUW '' \<in> snd ` set (userJsonEx ! 2)" by (simp add: userJsonEx_def)
  have c: "cellKey '' 6-CHIST2  SUW '' = Some ''6CHIST2  SUW''" by code_simp
  from index_normalization [of "'' 6-CHIST2  SUW ''" userJsonEx] a b c
  have "''6CHIST2  SUW'' \<in> fst ` set (buildFrequencyMap userJsonEx)" by blast
  with a b c show ?thesis by simp
qed

section \<open>The user pass of the class-list pipeline\<close>

lemma processUserRow_outputs:
  "isEligibleClass (up_class row) \<Longrightarrow>
   outputRows (processUserRow cl cm st i row) = outputRows st @ directRecords cl cm row"
  by (simp add: processUserRow_def directRecords_def Let_def)

lemma set_tl_subset: "x \<in> set (tl xs) \<Longrightarrow> x \<in> set xs"
  by (cases xs) auto

lemma takeWhile_none: "\<forall>c \<in> set xs. \<not> P c \<Longrightarrow> takeWhile P xs = []"
  by (cases xs) auto

lemma classNo_non_numeric:
  assumes "\<not> (\<exists>c \<in> set (cl_Class_no item). isDigit c)"
  shows "classNo item = 0"
proof -
  let ?t = "dropWhile isWhitespace (cl_Class_no item)"
  have t: "\<forall>c \<in> set ?t. \<not> isDigit c" using assms by (auto dest: set_dropWhileD)
  then have tl: "\<forall>c \<in> set (tl ?t). \<not> isDigit c" by (auto dest: set_tl_subset)
  have "takeWhile isDigit ?t = []" using t by (rule takeWhile_none)
  moreover have "takeWhile isDigit (tl ?t) = []" using tl by (rule takeWhile_none)
  ultimately show ?thesis by (simp add: classNo_def parseIntOr0_def Let_def)
qed

text \<open>
  Claim C10. For an eligible row of the user-profile sheet whose form/class token
  matches N rows of the class list, the user pass appends exactly N records, one per
  matching row: they are the matching rows taken in ascending order of their numeric
  \<open>Class no\<close> (a rearrangement of the matching rows, of the same length), each giving
  one record with that row's \<open>TSSSID\<close> and with the user row's sub_code, the
  subject_code looked up for it, and the user row's class text as grouping. A
  \<open>Class no\<close> without any digit counts as 0.
\<close>

theorem direct_emission_per_matching_row:
  "isEligibleClass (up_class row) \<Longrightarrow>
   outputRows (processUserRow classListData codeMap st index row)
     = outputRows st
       @ map (directRecord row (codeMap (up_sub_code row)))
           (sort_key classNo (matchingClassRows classListData (extractFormClass (up_class row))))
   \<and> length (sort_key classNo (matchingClassRows classListData (extractFormClass (up_class row))))
       = length (matchingClassRows classListData (extractFormClass (up_class row)))
   \<and> mset (sort_key classNo (matchingClassRows classListData (extractFormClass (up_class row))))
       = mset (matchingClassRows classListData (extractFormClass (up_class row)))
   \<and> sorted (map classNo (sort_key classNo (matchingClassRows classListData (extractFormClass (up_class row)))))
   \<and> (\<forall>matchRow. sub_code (directRecord row (codeMap (up_sub_code row)) matchRow) = up_sub_code row
         \<and> subject_code (directRecord row (codeMap (up_sub_code row)) matchRow) = codeMap (up_sub_code row)
         \<and> grouping (directRecord row (codeMap (up_sub_code row)) matchRow) = up_class row
         \<and> tsss_id (directRecord row (codeMap (up_sub_code row)) matchRow) = cl_TSSSID matchRow)
   \<and> (\<forall>item. \<not> (\<exists>c \<in> set (cl_Class_no item). isDigit c) \<longrightarrow> classNo item = 0)"
  by (simp add: processUserRow_outputs directRecords_def directRecord_def classNo_non_numeric)

theorem direct_emission_per_matching_row_witness:
  "isEligibleClass (up_class rowCES)
   \<and> map cl_TSSSID (matchingClassRows classList1A (extractFormClass (up_class rowCES))) = [''S3'', ''S5'', ''S6'']
   \<and> map classNo (matchingClassRows classList1A (extractFormClass (up_class rowCES))) = [12, 2, 0]
   \<and> map tsss_id (outputRows (processUserRow classList1A (subCodeMap []) initialState 0 rowCES))
       = [''S6'', ''S5'', ''S3'']
   \<and> map sub_code (outputRows (processUserRow classList1A (subCodeMap []) initialState 0 rowCES))
       = [''CES1'', ''CES1'', ''CES1'']"
proof -
  have e: "isEligibleClass (up_class rowCES)" by code_simp
  have m: "map cl_TSSSID (matchingClassRows classList1A (extractFormClass (up_class rowCES))) = [''S3'', ''S5'', ''S6'']
   \<and> map classNo (matchingClassRows classList1A (extractFormClass (up_class rowCES))) = [12, 2, 0]"
    by code_simp
  have r: "map tsss_id (outputRows initialState
       @ map (directRecord rowCES (subCodeMap [] (up_sub_code rowCES)))
           (sort_key classNo (matchingClassRows classList1A (extractFormClass (up_class rowCES)))))
       = [''S6'', ''S5'', ''S3'']
     \<and> map sub_code (outputRows initialState
       @ map (directRecord rowCES (subCodeMap [] (up_sub_code rowCES)))
           (sort_key classNo (matchingClassRows classList1A (extractFormClass (up_class rowCES)))))
       = [''CES1'', ''CES1'', ''CES1'']"
    by code_simp
  from direct_emission_per_matching_row [OF e, of classList1A "subCodeMap []" initialState 0]
  have "outputRows (processUserRow classList1A (subCodeMap []) initialState 0 rowCES)
     = outputRows initialState
       @ map (directRecord rowCES (subCodeMap [] (up_sub_code rowCES)))
           (sort_key classNo (matchingClassRows classList1A (extractFormClass (up_class rowCES))))"
    by blast
  with e m r show ?thesis by simp
qed

section \<open>The recovery passes and the deferred store\<close>

lemma recoverRow_store: "missingInfoMap (recoverRow cm subj t st row) = missingInfoMap st"
  by (simp add: recoverRow_def split: option.splits)

lemma recoverRow_unprocessed: "unprocessedRows (recoverRow cm subj t st row) = unprocessedRows st"
  by (simp add: recoverRow_def split: option.splits)

lemma recoverRow_outputs:
  "outputRows (recoverRow cm subj t st row)
     = outputRows st @ (case recoveredOf cm subj t (missingInfoMap st) row of None \<Rightarrow> [] | Some r \<Rightarrow> [r])"
  by (simp add: recoverRow_def recoveredOf_def split: option.splits)

lemma recoveryPass_store: "missingInfoMap (recoveryPass cm subj t cl st) = missingInfoMap st"
  by (induction cl arbitrary: st) (simp_all add: recoverRow_store)

lemma recoveryPass_unprocessed: "unprocessedRows (recoveryPass cm subj t cl st) = unprocessedRows st"
  by (induction cl arbitrary: st) (simp_all add: recoverRow_unprocessed)

lemma recoveryPass_outputs:
  "outputRows (recoveryPass cm subj t cl st)
     = outputRows st @ List.map_filter (recoveredOf cm subj t (missingInfoMap st)) cl"
proof (induction cl arbitrary: st)
  case Nil
  then show ?case by (simp add: List.map_filter_simps)
next
  case (Cons row cl)
  show ?case
    by (cases "recoveredOf cm subj t (missingInfoMap st) row")
       (simp_all add: Cons.IH recoverRow_store recoverRow_outputs List.map_filter_simps)
qed

lemma processUserRow_outputs':
  "outputRows (processUserRow cl cm st i row) = outputRows st @ userRecords cl cm row"
  by (simp add: processUserRow_def userRecords_def directRecords_def Let_def)

lemma userPass_outputs:
  "outputRows (userPass cl cm i rows st) = outputRows st @ concat (map (userRecords cl cm) rows)"
  by (induction rows arbitrary: i st) (simp_all add: processUserRow_outputs')

lemma m2Row_store: "missingInfoMap (m2Row sp st row) = missingInfoMap st"
  by (simp add: m2Row_def split: option.splits)

lemma m2Row_outputs:
  "outputRows (m2Row sp st row)
     = outputRows st @ (case m2Of sp row of None \<Rightarrow> [] | Some r \<Rightarrow> [r])"
  by (simp add: m2Row_def m2Of_def split: option.splits)

lemma m2Pass_store: "missingInfoMap (foldl (m2Row sp) st cl) = missingInfoMap st"
  by (induction cl arbitrary: st) (simp_all add: m2Row_store)

lemma m2Pass_outputs:
  "outputRows (foldl (m2Row sp) st cl) = outputRows st @ List.map_filter (m2Of sp) cl"
proof (induction cl arbitrary: st)
  case Nil
  then show ?case by (simp add: List.map_filter_simps)
next
  case (Cons row cl)
  show ?case
    by (cases "m2Of sp row") (simp_all add: Cons.IH m2Row_outputs List.map_filter_simps)
qed

lemma main_store:
  "missingInfoMap (main u tbl cl) = missingInfoMap (userPass cl (subCodeMap tbl) 0 u initialState)"
  by (simp add: main_def Let_def m2Pass_store recoveryPass_store initialState_def)

lemma main_outputs:
  "outputRows (main u tbl cl) =
     concat (map (userRecords cl (subCodeMap tbl)) u)
     @ List.map_filter (recoveredOf (subCodeMap tbl) ''CHI'' cl_CHI
          (missingInfoMap (userPass cl (subCodeMap tbl) 0 u initialState))) cl
     @ List.map_filter (recoveredOf (subCodeMap tbl) ''MATHS'' cl_MATHS
          (missingInfoMap (userPass cl (subCodeMap tbl) 0 u initialState))) cl
     @ List.map_filter (recoveredOf (subCodeMap tbl) ''RSE'' cl_RSE
          (missingInfoMap (userPass cl (subCodeMap tbl) 0 u initialState))) cl
     @ List.map_filter (recoveredOf (subCodeMap tbl) ''ENG'' cl_ENG
          (missingInfoMap (userPass cl (subCodeMap tbl) 0 u initialState))) cl
     @ List.map_filter (m2Of (missingSpecific
          (missingInfoMap (userPass cl (subCodeMap tbl) 0 u initialState)))) cl"
  by (simp add: main_def Let_def m2Pass_outputs recoveryPass_outputs recoveryPass_store
        userPass_outputs initialState_def)

lemma length_map_filter: "length (List.map_filter f xs) = length (filter (\<lambda>x. f x \<noteq> None) xs)"
  by (induction xs) (auto simp: List.map_filter_simps split: option.splits)

text \<open>
  Claim C9. A recovery pass leaves the deferred store as it found it: every class-list
  row is searched against the same store, so a stored entry is returned for every row
  that meets its criteria, and the pass appends one record per class-list row for which
  the search returns an entry. No pass after the user pass changes the store: the store
  at the end of \<open>main\<close> is the one the user pass built.
\<close>

theorem recovery_pass_keeps_store:
  "missingInfoMap (recoveryPass codeMap subject teacherOf classListData st) = missingInfoMap st
   \<and> outputRows (recoveryPass codeMap subject teacherOf classListData st)
       = outputRows st
         @ List.map_filter (recoveredOf codeMap subject teacherOf (missingInfoMap st)) classListData
   \<and> length (List.map_filter (recoveredOf codeMap subject teacherOf (missingInfoMap st)) classListData)
       = length (filter (\<lambda>row. searchMissingInfo (missingInfoMap st) (cl_Form row) (cl_Class row)
                                  subject (teacherOf row) \<noteq> None) classListData)
   \<and> missingInfoMap (main userData tableData classListData)
       = missingInfoMap (userPass classListData (subCodeMap tableData) 0 userData initialState)"
  by (simp add: recoveryPass_store recoveryPass_outputs length_map_filter main_store recoveredOf_def)

theorem recovery_pass_keeps_store_witness:
  "missingInfoMap storeDeferred
     = [(''3MJPW4'', [\<lparr>mi_group = ''3MJPW4'', mi_subject = ''CHI'', mi_teacher = ''NEW'',
                         mi_sub_code = ''CHN1''\<rparr>])]
   \<and> missingInfoMap (recoveryPass (subCodeMap []) ''CHI'' cl_CHI classListDeferred storeDeferred)
       = missingInfoMap storeDeferred
   \<and> map tsss_id (outputRows (recoveryPass (subCodeMap []) ''CHI'' cl_CHI classListDeferred storeDeferred))
       = [''S1'', ''S2'']
   \<and> map grouping (outputRows (recoveryPass (subCodeMap []) ''CHI'' cl_CHI classListDeferred storeDeferred))
       = [''3MJPW4 CHI NEW'', ''3MJPW4 CHI NEW'']"
proof -
  have s: "missingInfoMap storeDeferred
     = [(''3MJPW4'', [\<lparr>mi_group = ''3MJPW4'', mi_subject = ''CHI'', mi_teacher = ''NEW'',
                         mi_sub_code = ''CHN1''\<rparr>])]"
    by code_simp
  have r: "map tsss_id (outputRows storeDeferred
         @ List.map_filter (recoveredOf (subCodeMap []) ''CHI'' cl_CHI (missingInfoMap storeDeferred)) classListDeferred)
       = [''S1'', ''S2'']
     \<and> map grouping (outputRows storeDeferred
         @ List.map_filter (recoveredOf (subCodeMap []) ''CHI'' cl_CHI (missingInfoMap storeDeferred)) classListDeferred)
       = [''3MJPW4 CHI NEW'', ''3MJPW4 CHI NEW'']"
    by code_simp
  from recovery_pass_keeps_store [of "subCodeMap []" "''CHI''" cl_CHI classListDeferred storeDeferred]
  have "missingInfoMap (recoveryPass (subCodeMap []) ''CHI'' cl_CHI classListDeferred storeDeferred)
          = missingInfoMap storeDeferred
        \<and> outputRows (recoveryPass (subCodeMap []) ''CHI'' cl_CHI classListDeferred storeDeferred)
          = outputRows storeDeferred
            @ List.map_filter (recoveredOf (subCodeMap []) ''CHI'' cl_CHI (missingInfoMap storeDeferred)) classListDeferred"
    by blast
  with s r show ?thesis by simp
qed

section \<open>Emission preconditions\<close>

lemma appendRecords_eq:
  "appendRecords fm m cd acc = acc @ concat (map (recordsOfClassRow fm m) cd)"
  by (induction cd arbitrary: acc) simp_all

lemma processMatchForRecord_codes:
  "processMatchForRecord mapping tsssid matchObj = Some r
   \<Longrightarrow> sub_code r \<noteq> [] \<and> (\<exists>c. subject_code r = Some c \<and> c \<noteq> [])"
  by (auto simp: processMatchForRecord_def Let_def split: if_splits)

lemma recordsOfClassRow_codes:
  "r \<in> set (recordsOfClassRow fm m row)
   \<Longrightarrow> sub_code r \<noteq> [] \<and> (\<exists>c. subject_code r = Some c \<and> c \<noteq> [])"
  by (auto simp: recordsOfClassRow_def Let_def List.map_filter_simps
           split: if_splits option.splits dest: processMatchForRecord_codes)

text \<open>
  Claim C1, as stated, at two user-profile rows whose sub_code is empty and whose
  classes are in the class list, with an empty reference table: \<open>main\<close> emits a record
  for each, with empty sub_code and no subject_code, and logs neither as unprocessed.
\<close>

theorem emitted_records_have_codes_counterexample:
  "map sub_code (outputRows (main userUnresolved [] classListAB)) = [[], []]
   \<and> map subject_code (outputRows (main userUnresolved [] classListAB)) = [None, None]
   \<and> unprocessedRows (main userUnresolved [] classListAB) = []"
  by code_simp

text \<open>
  Claim C1, amended. Every record that the record builder of the student-profile script
  (\<open>processMatchForRecord\<close>) returns has a non-empty sub_code and a non-empty
  subject_code; when the converted sub_code or the subject_code looked up for it is
  empty, it returns no record; so every record that script appends has both codes
  non-empty. (The record builder logs nothing for a match it withholds, and \<open>main\<close> of
  the class-list pipeline emits its records without this check.)
\<close>

theorem record_builder_codes:
  "(processMatchForRecord mapping tsssid matchObj = Some r
      \<longrightarrow> sub_code r \<noteq> [] \<and> (\<exists>c. subject_code r = Some c \<and> c \<noteq> []))
   \<and> (convertSubCode (trim (hd (mr_subCodes matchObj))) = []
       \<or> lookupSubjectCode mapping (convertSubCode (trim (hd (mr_subCodes matchObj)))) = []
      \<longrightarrow> processMatchForRecord mapping tsssid matchObj = None)
   \<and> (\<forall>rec \<in> set (appendRecords frequencyMap mapping classData []).
         sub_code rec \<noteq> [] \<and> (\<exists>c. subject_code rec = Some c \<and> c \<noteq> []))"
proof -
  have a: "processMatchForRecord mapping tsssid matchObj = Some r
      \<longrightarrow> sub_code r \<noteq> [] \<and> (\<exists>c. subject_code r = Some c \<and> c \<noteq> [])"
    using processMatchForRecord_codes by blast
  have b: "convertSubCode (trim (hd (mr_subCodes matchObj))) = []
       \<or> lookupSubjectCode mapping (convertSubCode (trim (hd (mr_subCodes matchObj)))) = []
      \<longrightarrow> processMatchForRecord mapping tsssid matchObj = None"
    by (auto simp: processMatchForRecord_def Let_def)
  have c: "\<forall>rec \<in> set (appendRecords frequencyMap mapping classData []).
         sub_code rec \<noteq> [] \<and> (\<exists>c. subject_code rec = Some c \<and> c \<noteq> [])"
    by (auto simp: appendRecords_eq dest: recordsOfClassRow_codes)
  from a b c show ?thesis by blast
qed

theorem record_builder_codes_witness:
  "appendRecords (buildFrequencyMap userJsonEx) (subSubjectMapping tableHist) classDataHist [] = [recordHist]
   \<and> sub_code recordHist \<noteq> [] \<and> (\<exists>c. subject_code recordHist = Some c \<and> c \<noteq> [])
   \<and> lookupSubjectCode (subSubjectMapping [])
        (convertSubCode (trim (hd (mr_subCodes (findMatches (buildFrequencyMap userJsonEx) ''6CHIST2''))))) = []
   \<and> processMatchForRecord (subSubjectMapping []) ''S7''
        (findMatches (buildFrequencyMap userJsonEx) ''6CHIST2'') = None"
proof -
  have a: "appendRecords (buildFrequencyMap userJsonEx) (subSubjectMapping tableHist) classDataHist []
             = [recordHist]"
    by code_simp
  have b: "lookupSubjectCode (subSubjectMapping [])
        (convertSubCode (trim (hd (mr_subCodes (findMatches (buildFrequencyMap userJsonEx) ''6CHIST2''))))) = []"
    by code_simp
  have c: "recordHist \<in> set (appendRecords (buildFrequencyMap userJsonEx) (subSubjectMapping tableHist) classDataHist [])"
    using a by simp
  from record_builder_codes [where mapping = "subSubjectMapping tableHist" and classData = classDataHist
             and frequencyMap = "buildFrequencyMap userJsonEx"] c
  have d: "sub_code recordHist \<noteq> [] \<and> (\<exists>c. subject_code recordHist = Some c \<and> c \<noteq> [])"
    by blast
  from record_builder_codes [where mapping = "subSubjectMapping []" and tsssid = "''S7''"
             and matchObj = "findMatches (buildFrequencyMap userJsonEx) ''6CHIST2''"] b
  have "processMatchForRecord (subSubjectMapping []) ''S7''
          (findMatches (buildFrequencyMap userJsonEx) ''6CHIST2'') = None"
    by blast
  with a b d show ?thesis by blast
qed

section \<open>The order of the written rows\<close>

lemma mset_insertBy: "mset (insertBy le x ys) = add_mset x (mset ys)"
  by (induction ys) simp_all

lemma set_insertBy: "set (insertBy le x ys) = insert x (set ys)"
  by (induction ys) auto

lemma mset_sortBy: "mset (sortBy le xs) = mset xs"
  by (induction xs) (simp_all add: sortBy_def mset_insertBy)

lemma sorted_insertBy:
  assumes total: "\<And>a b. le a b \<or> le b a" and trans: "\<And>a b c. le a b \<Longrightarrow> le b c \<Longrightarrow> le a c"
  shows "sorted_wrt le ys \<Longrightarrow> sorted_wrt le (insertBy le x ys)"
proof (induction ys)
  case Nil
  then show ?case by simp
next
  case (Cons y ys)
  show ?case
  proof (cases "le x y")
    case True
    with Cons.prems trans show ?thesis by auto
  next
    case False
    with total have "le y x" by blast
    with Cons False show ?thesis by (auto simp: set_insertBy)
  qed
qed

lemma sorted_sortBy:
  assumes total: "\<And>a b. le a b \<or> le b a" and trans: "\<And>a b c. le a b \<Longrightarrow> le b c \<Longrightarrow> le a c"
  shows "sorted_wrt le (sortBy le xs)"
proof (induction xs)
  case Nil
  then show ?case by (simp add: sortBy_def)
next
  case (Cons x xs)
  then have "sorted_wrt le (insertBy le x (sortBy le xs))"
    using sorted_insertBy [of le] total trans by blast
  then show ?case by (simp add: sortBy_def)
qed

lemma part4_sorted:
  assumes "\<forall>a b. le a b \<or> le b a" and "\<forall>a b c. le a b \<and> le b c \<longrightarrow> le a c"
  shows "sorted_wrt (userLe le) (part4 le tableSheet rows)"
proof -
  have t: "\<And>a b. userLe le a b \<or> userLe le b a" using assms(1) by (simp add: userLe_def)
  have tr: "\<And>a b c. userLe le a b \<Longrightarrow> userLe le b c \<Longrightarrow> userLe le a c"
    using assms(2) unfolding userLe_def by blast
  show ?thesis unfolding part4_def by (rule sorted_sortBy [OF t tr])
qed

text \<open>
  Claim C8, as stated, at the same input: the rows \<open>main\<close> writes are in emission order,
  here descending both by grouping text and by identifier.
\<close>

theorem outputs_sorted_counterexample:
  "map grouping (outputRows (main userUnresolved [] classListAB)) = [''2B CES JAT'', ''1A CES JAT'']
   \<and> map tsss_id (outputRows (main userUnresolved [] classListAB)) = [''S9'', ''S1'']
   \<and> \<not> sorted (map groupingKey (outputRows (main userUnresolved [] classListAB)))
   \<and> \<not> sorted (map (\<lambda>r. toLowerCase (tsss_id r)) (outputRows (main userUnresolved [] classListAB)))"
  by code_simp

text \<open>
  Claim C8, amended. The student-profile script writes its rows (the existing student
  rows and the appended records) sorted by the lowercased grouping text, in the
  lexicographic order of the characters. Part 4 of the workload script writes the
  resolved user-profile rows sorted by the uppercased user text in the order of the
  host's locale comparison, for any comparison that is total and transitive. \<open>main\<close> of
  the class-list pipeline does not sort: it writes the records of the user pass, then
  those of the CHI, MATHS, RSE and ENG recovery passes, then those of the M2 pass, each
  in the order of emission.
\<close>

theorem written_order:
  "sorted (map groupingKey (updateStudentProfiles userJsonData tableData classData studentData))
   \<and> mset (updateStudentProfiles userJsonData tableData classData studentData)
       = mset (studentData
               @ appendRecords (buildFrequencyMap userJsonData) (subSubjectMapping tableData) classData [])
   \<and> ((\<forall>a b. le a b \<or> le b a) \<and> (\<forall>a b c. le a b \<and> le b c \<longrightarrow> le a c)
        \<longrightarrow> sorted_wrt (userLe le) (part4 le tableSheet userProfileData))
   \<and> mset (part4 le tableSheet userProfileData) = mset (map (resolveRow tableSheet) userProfileData)
   \<and> outputRows (main userData tableData classListData) =
       concat (map (userRecords classListData (subCodeMap tableData)) userData)
       @ List.map_filter (recoveredOf (subCodeMap tableData) ''CHI'' cl_CHI
            (missingInfoMap (userPass classListData (subCodeMap tableData) 0 userData initialState))) classListData
       @ List.map_filter (recoveredOf (subCodeMap tableData) ''MATHS'' cl_MATHS
            (missingInfoMap (userPass classListData (subCodeMap tableData) 0 userData initialState))) classListData
       @ List.map_filter (recoveredOf (subCodeMap tableData) ''RSE'' cl_RSE
            (missingInfoMap (userPass classListData (subCodeMap tableData) 0 userData initialState))) classListData
       @ List.map_filter (recoveredOf (subCodeMap tableData) ''ENG'' cl_ENG
            (missingInfoMap (userPass classListData (subCodeMap tableData) 0 userData initialState))) classListData
       @ List.map_filter (m2Of (missingSpecific
            (missingInfoMap (userPass classListData (subCodeMap tableData) 0 userData initialState)))) classListData"
proof -
  have a: "sorted (map groupingKey (updateStudentProfiles userJsonData tableData classData studentData))"
    by (simp add: updateStudentProfiles_def)
  have b: "mset (updateStudentProfiles userJsonData tableData classData studentData)
       = mset (studentData
               @ appendRecords (buildFrequencyMap userJsonData) (subSubjectMapping tableData) classData [])"
    by (simp add: updateStudentProfiles_def)
  have c: "(\<forall>a b. le a b \<or> le b a) \<and> (\<forall>a b c. le a b \<and> le b c \<longrightarrow> le a c)
        \<longrightarrow> sorted_wrt (userLe le) (part4 le tableSheet userProfileData)"
    using part4_sorted by blast
  have d: "mset (part4 le tableSheet userProfileData) = mset (map (resolveRow tableSheet) userProfileData)"
    by (simp add: part4_def mset_sortBy)
  from a b c d main_outputs [of userData tableData classListData] show ?thesis by blast
qed

theorem written_order_witness:
  "sorted_wrt (userLe (\<le>)) (part4 (\<le>) sheetMath rowsByUser)
   \<and> map up_user (part4 (\<le>) sheetMath rowsByUser) = [''BYC'', ''suw'']
   \<and> map up_sub_code (part4 (\<le>) sheetMath rowsByUser) = [''DMA21'', ''DMA21'']"
proof -
  have t: "\<forall>a b :: string. a \<le> b \<or> b \<le> a" by (simp add: linear)
  have tr: "\<forall>a b c :: string. a \<le> b \<and> b \<le> c \<longrightarrow> a \<le> c" by auto
  have e: "map up_user (part4 (\<le>) sheetMath rowsByUser) = [''BYC'', ''suw'']
           \<and> map up_sub_code (part4 (\<le>) sheetMath rowsByUser) = [''DMA21'', ''DMA21'']"
    by code_simp
  from written_order [of _ _ _ _ "(\<le>)" sheetMath rowsByUser] t tr
  have "sorted_wrt (userLe (\<le>)) (part4 (\<le>) sheetMath rowsByUser)" by blast
  with e show ?thesis by blast
qed

end
